theory Spec2Isabelle
  imports Main "HOL-Library.FSet" "HOL-Library.Finite_Map"
begin

section \<open>go-envsync: provider registry and client load engine\<close>

text \<open>
  A shallow embedding of \<^verbatim>\<open>pkg/providers/registry\<close> (the registry of provider
  factories) and of \<^verbatim>\<open>pkg/client/client.go\<close> (the load and merge engine).

  Conventions:
  \<^item> a Go \<^verbatim>\<open>string\<close> is a \<^typ>\<open>string\<close>, a list of bytes; \<^verbatim>\<open>len(s)\<close> is \<^const>\<open>length\<close>;
  \<^item> a Go \<^verbatim>\<open>map[string]T\<close> is a finite map \<^typ>\<open>(string, 'a) fmap\<close>; \<^verbatim>\<open>len(m)\<close> is
    the number of its keys;
  \<^item> a \<^verbatim>\<open>range\<close> over a map visits its entries in an order Go leaves open, so the
    map that is ranged over is given as the list of its entries in the order of the
    visit, and the theorems hold for every order;
  \<^item> a method that mutates its receiver returns the new receiver; a method that
    returns \<^verbatim>\<open>error\<close> returns an \<open>error option\<close>, of the datatype of errors below,
    \<^const>\<open>None\<close> for \<^verbatim>\<open>nil\<close>;
  \<^item> a nil pointer or nil interface is \<^const>\<open>None\<close>;
  \<^item> the maps of a registry, a client and an environment are allocated, as
    \<^verbatim>\<open>NewRegistry\<close>, \<^verbatim>\<open>New\<close> and \<^verbatim>\<open>Load\<close> leave them: a struct made without
    them, whose nil map makes the first write panic, is not a value of these records.
\<close>

subsection \<open>Errors\<close>

text \<open>
  One constructor for each \<^verbatim>\<open>fmt.Errorf\<close> of the two packages, with the operands of
  its format string; \<^verbatim>\<open>%w\<close> keeps the wrapped error. \<open>ExternalError\<close> is an error
  made outside the two packages (by a provider, a factory or a validator).
\<close>

datatype error =
    ExternalError string
  | ProviderInfoNil
      \<comment> \<open>provider info cannot be nil\<close>
  | ProviderNameEmpty
      \<comment> \<open>provider name cannot be empty\<close>
  | ProviderFactoryNil
      \<comment> \<open>provider factory cannot be nil\<close>
  | RegistryFull nat
      \<comment> \<open>registry is full (max %d providers)\<close>
  | ProviderAlreadyRegistered string
      \<comment> \<open>provider %s already registered\<close>
  | AliasConflictsWithProvider string
      \<comment> \<open>alias %s conflicts with existing provider\<close>
  | AliasAlreadyRegistered string
      \<comment> \<open>alias %s already registered\<close>
  | ProviderNotFound string
      \<comment> \<open>provider %s not found\<close>
  | ConfigValidationFailed error
      \<comment> \<open>configuration validation failed: %w\<close>
  | RequiredConfigKeyMissing string
      \<comment> \<open>required configuration key missing: %s\<close>
  | FailedToCreateProvider string error
      \<comment> \<open>failed to create provider %s: %w\<close>
  | NilFactoryCall
      \<comment> \<open>the run-time panic of calling a nil function value\<close>
  | NoSourcesSpecified
      \<comment> \<open>no sources specified\<close>
  | FailedToLoadFromSource string error
      \<comment> \<open>failed to load from source %s: %w\<close>
  | ValidationFailed error
      \<comment> \<open>validation failed: %w\<close>
  | TooManyEnvironmentKeys nat nat
      \<comment> \<open>too many environment keys: %d > %d\<close>
  | SourceValidationFailed string error
      \<comment> \<open>source validation failed for %s: %w\<close>
  | FailedToLoadFromProvider string error
      \<comment> \<open>failed to load from provider %s: %w\<close>
  | DuplicateKeyFound string string string
      \<comment> \<open>duplicate key found: %s (existing: %s, new: %s)\<close>
  | NoExporterConfigured
      \<comment> \<open>no exporter configured\<close>

subsection \<open>Library functions of Go used by the code\<close>

text \<open>\<^verbatim>\<open>len\<close> of a map.\<close>

definition len :: "('k, 'v) fmap \<Rightarrow> nat" where
  "len m = fcard (fmdom m)"

text \<open>
  \<^verbatim>\<open>strings.TrimSpace\<close> removes the leading and the trailing white space of a
  string, as Unicode defines it (\<^verbatim>\<open>unicode.IsSpace\<close>): the code points U+0009 to
  U+000D, U+0020, U+0085, U+00A0, U+1680, U+2000 to U+200A, U+2028, U+2029, U+202F,
  U+205F and U+3000. \<open>spaceRunes\<close> lists their UTF-8 encodings. A Go string is a
  sequence of bytes; Go decodes the first (or the last) code point and removes it when
  it is white space, which is to remove a leading (or trailing) byte sequence of the
  list: a byte sequence that is no valid encoding decodes to U+FFFD, which is no white
  space, and stops the trimming.
\<close>

definition spaceRunes :: "string list" where
  "spaceRunes =
     [[CHR 0x09], [CHR 0x0A], [CHR 0x0B], [CHR 0x0C], [CHR 0x0D], [CHR 0x20],
      [CHR 0xC2, CHR 0x85], [CHR 0xC2, CHR 0xA0],
      [CHR 0xE1, CHR 0x9A, CHR 0x80],
      [CHR 0xE2, CHR 0x80, CHR 0x80], [CHR 0xE2, CHR 0x80, CHR 0x81],
      [CHR 0xE2, CHR 0x80, CHR 0x82], [CHR 0xE2, CHR 0x80, CHR 0x83],
      [CHR 0xE2, CHR 0x80, CHR 0x84], [CHR 0xE2, CHR 0x80, CHR 0x85],
      [CHR 0xE2, CHR 0x80, CHR 0x86], [CHR 0xE2, CHR 0x80, CHR 0x87],
      [CHR 0xE2, CHR 0x80, CHR 0x88], [CHR 0xE2, CHR 0x80, CHR 0x89],
      [CHR 0xE2, CHR 0x80, CHR 0x8A],
      [CHR 0xE2, CHR 0x80, CHR 0xA8], [CHR 0xE2, CHR 0x80, CHR 0xA9],
      [CHR 0xE2, CHR 0x80, CHR 0xAF], [CHR 0xE2, CHR 0x81, CHR 0x9F],
      [CHR 0xE3, CHR 0x80, CHR 0x80]]"

text \<open>
  \<open>stripLeading ws s\<close> removes from the front of \<open>s\<close> one word of \<open>ws\<close> after
  the other, as long as there is one; each step makes the string shorter.
\<close>

function stripLeading :: "string list \<Rightarrow> string \<Rightarrow> string" where
  "stripLeading ws s =
     (case find (\<lambda>w. w \<noteq> [] \<and> take (length w) s = w) ws of
        None \<Rightarrow> s
      | Some w \<Rightarrow> stripLeading ws (drop (length w) s))"
  by pat_completeness auto
termination
proof (relation "measure (\<lambda>(ws, s). length s)")
  show "wf (measure (\<lambda>(ws, s). length s))" by simp
next
  fix ws :: "string list" and s w :: string
  assume "find (\<lambda>w. w \<noteq> [] \<and> take (length w) s = w) ws = Some w"
  then have w: "w \<noteq> []" "take (length w) s = w"
    by (auto simp: find_Some_iff)
  have "length (take (length w) s) = length w"
    using w(2) by simp
  then have "length w \<le> length s"
    by simp
  with w(1) show "((ws, drop (length w) s), (ws, s)) \<in> measure (\<lambda>(ws, s). length s)"
    by (cases w) auto
qed

definition TrimSpace :: "string \<Rightarrow> string" where
  "TrimSpace s = rev (stripLeading (map rev spaceRunes) (rev (stripLeading spaceRunes s)))"

text \<open>
  \<^verbatim>\<open>strings.SplitN(s, sep, n)\<close> for a separator of one byte and \<open>n \<ge> 0\<close>: no
  substring for \<open>n = 0\<close>, else at most \<open>n\<close> substrings, the last one the unsplit rest.
\<close>

fun SplitN :: "string \<Rightarrow> char \<Rightarrow> nat \<Rightarrow> string list" where
  "SplitN s sep 0 = []"
| "SplitN s sep (Suc 0) = [s]"
| "SplitN s sep (Suc (Suc n)) =
     (if sep \<in> set s
      then takeWhile (\<lambda>c. c \<noteq> sep) s # SplitN (tl (dropWhile (\<lambda>c. c \<noteq> sep) s)) sep (Suc n)
      else [s])"

subsection \<open>Package client: types\<close>

text \<open>
  The interface \<^verbatim>\<open>Provider\<close>, as the record of its three methods. \<open>Load\<close> gives the
  entries of the map it returns in the order \<^verbatim>\<open>mergeConfiguration\<close> will visit them;
  the context argument, which the engine hands on without reading it, is left out.
\<close>

record Provider =
  provName :: string
  provLoad :: "string \<Rightarrow> error + (string \<times> string) list"
  provValidate :: "string \<Rightarrow> error option"

type_synonym Validator = "(string, string) fmap \<Rightarrow> error option"

type_synonym Exporter = "(string, string) fmap \<Rightarrow> string \<Rightarrow> error option"

definition DefaultProviderName :: string where
  "DefaultProviderName = ''default''"

definition MaxEnvironmentKeys :: nat where
  "MaxEnvironmentKeys = 10000"

definition MaxKeyLength :: nat where
  "MaxKeyLength = 256"

definition MaxValueLength :: nat where
  "MaxValueLength = 4096"

definition client_MaxProviders :: nat where
  "client_MaxProviders = 50"

definition SourceProviderParts :: nat where
  "SourceProviderParts = 2"

definition MinSourceParts :: nat where
  "MinSourceParts = 2"

text \<open>\<^verbatim>\<open>type MergeStrategy int\<close> with its three named values (\<^verbatim>\<open>iota\<close> from 0).\<close>

type_synonym MergeStrategy = int

definition MergeStrategyOverride :: MergeStrategy where
  "MergeStrategyOverride = 0"

definition MergeStrategyPreserve :: MergeStrategy where
  "MergeStrategyPreserve = 1"

definition MergeStrategyError :: MergeStrategy where
  "MergeStrategyError = 2"

record Client =
  cl_providers :: "(string, Provider) fmap"
  validator :: "Validator option"
  exporter :: "Exporter option"

record LoadOptions =
  optSources :: "string list"
  Schema :: string
  optMergeStrategy :: MergeStrategy

record SourceInfo =
  srcName :: string
  srcProvider :: string
  KeyCount :: int

record Environment =
  Data :: "(string, string) fmap"
  Sources :: "SourceInfo list"
  client :: Client

subsection \<open>Package client: operations\<close>

definition New :: Client where
  "New = \<lparr>cl_providers = fmempty, validator = None, exporter = None\<rparr>"

definition AddProvider :: "Client \<Rightarrow> string \<Rightarrow> Provider \<Rightarrow> Client" where
  "AddProvider c name provider =
     (if len (cl_providers c) \<ge> client_MaxProviders then c
      else c\<lparr>cl_providers := fmupd name provider (cl_providers c)\<rparr>)"

definition SetValidator :: "Client \<Rightarrow> Validator option \<Rightarrow> Client" where
  "SetValidator c v = c\<lparr>validator := v\<rparr>"

definition SetExporter :: "Client \<Rightarrow> Exporter option \<Rightarrow> Client" where
  "SetExporter c e = c\<lparr>exporter := e\<rparr>"

definition parseSource :: "string \<Rightarrow> string \<times> string" where
  "parseSource source =
     (let parts = SplitN source (CHR '':'') SourceProviderParts in
      if length parts = MinSourceParts then (parts ! 0, parts ! 1)
      else (DefaultProviderName, source))"

text \<open>
  \<open>mergeConfiguration\<close> writes into \<open>target\<close> as it goes, so it returns the
  target as it stands when the loop ends or returns early, next to the error. A
  strategy that is none of the three named values falls through the \<^verbatim>\<open>switch\<close> to
  the assignment, as \<open>MergeStrategyOverride\<close> does.
\<close>

fun mergeConfiguration ::
  "(string, string) fmap \<Rightarrow> (string \<times> string) list \<Rightarrow> MergeStrategy
     \<Rightarrow> (string, string) fmap \<times> error option" where
  "mergeConfiguration target [] strategy = (target, None)"
| "mergeConfiguration target ((key, value) # rest) strategy =
     (case fmlookup target key of
        Some existingValue \<Rightarrow>
          if strategy = MergeStrategyError
            then (target, Some (DuplicateKeyFound key existingValue value))
          else if strategy = MergeStrategyPreserve
            then mergeConfiguration target rest strategy
          else mergeConfiguration (fmupd key value target) rest strategy
      | None \<Rightarrow> mergeConfiguration (fmupd key value target) rest strategy)"

text \<open>\<open>loadFromSource\<close> works on the environment it is handed and returns it.\<close>

definition loadFromSource ::
  "Client \<Rightarrow> string \<Rightarrow> Environment \<Rightarrow> MergeStrategy \<Rightarrow> Environment \<times> error option" where
  "loadFromSource c source env strategy =
     (case parseSource source of (providerName, actualSource) \<Rightarrow>
        (case fmlookup (cl_providers c) providerName of
           None \<Rightarrow> (env, Some (ProviderNotFound providerName))
         | Some provider \<Rightarrow>
             (case provValidate provider actualSource of
                Some validateErr \<Rightarrow> (env, Some (SourceValidationFailed source validateErr))
              | None \<Rightarrow>
                  (case provLoad provider actualSource of
                     Inl err \<Rightarrow> (env, Some (FailedToLoadFromProvider providerName err))
                   | Inr config \<Rightarrow>
                       let originalSize = len (Data env) in
                       (case mergeConfiguration (Data env) config strategy of
                          (data, Some err) \<Rightarrow> (env\<lparr>Data := data\<rparr>, Some err)
                        | (data, None) \<Rightarrow>
                            (env\<lparr>Data := data,
                                 Sources := Sources env @
                                   [\<lparr>srcName = source, srcProvider = providerName,
                                     KeyCount = int (len data) - int originalSize\<rparr>]\<rparr>,
                             None))))))"

text \<open>The loop of \<open>Load\<close> over \<^verbatim>\<open>options.Sources\<close>, which returns at the first error.\<close>

fun loadSources ::
  "Client \<Rightarrow> string list \<Rightarrow> Environment \<Rightarrow> MergeStrategy \<Rightarrow> Environment \<times> error option" where
  "loadSources c [] env strategy = (env, None)"
| "loadSources c (source # rest) env strategy =
     (case loadFromSource c source env strategy of
        (env', Some err) \<Rightarrow> (env', Some (FailedToLoadFromSource source err))
      | (env', None) \<Rightarrow> loadSources c rest env' strategy)"

text \<open>
  \<open>Load\<close> returns the pair \<^verbatim>\<open>(*Environment, error)\<close>; each component is
  \<^const>\<open>None\<close> for \<^verbatim>\<open>nil\<close>. \<open>newEnvironment\<close> is the environment it starts
  from.
\<close>

definition newEnvironment :: "Client \<Rightarrow> Environment" where
  "newEnvironment c = \<lparr>Data = fmempty, Sources = [], client = c\<rparr>"

definition Load :: "Client \<Rightarrow> LoadOptions \<Rightarrow> Environment option \<times> error option" where
  "Load c options =
     (if length (optSources options) = 0 then (None, Some NoSourcesSpecified)
      else
        let env = newEnvironment c in
        (case loadSources c (optSources options) env (optMergeStrategy options) of
           (env', Some err) \<Rightarrow> (None, Some err)
         | (env', None) \<Rightarrow>
             (case (case validator c of
                      None \<Rightarrow> None
                    | Some v \<Rightarrow> v (Data env')) of
                Some err \<Rightarrow> (None, Some (ValidationFailed err))
              | None \<Rightarrow>
                  if len (Data env') > MaxEnvironmentKeys
                    then (None, Some (TooManyEnvironmentKeys (len (Data env')) MaxEnvironmentKeys))
                  else (Some env', None))))"

text \<open>\<open>Get\<close> returns the zero value, the empty string, for a key that is absent.\<close>

definition Get :: "Environment \<Rightarrow> string \<Rightarrow> string \<times> bool" where
  "Get e key = (case fmlookup (Data e) key of Some v \<Rightarrow> (v, True) | None \<Rightarrow> ([], False))"

definition Set :: "Environment \<Rightarrow> string \<Rightarrow> string \<Rightarrow> Environment" where
  "Set e key v = e\<lparr>Data := fmupd key v (Data e)\<rparr>"

definition Export :: "Environment \<Rightarrow> string \<Rightarrow> error option" where
  "Export e destination =
     (case exporter (client e) of
        None \<Rightarrow> Some NoExporterConfigured
      | Some ex \<Rightarrow> ex (Data e) destination)"

definition Size :: "Environment \<Rightarrow> nat" where
  "Size e = len (Data e)"

definition IsEmpty :: "Environment \<Rightarrow> bool" where
  "IsEmpty e \<longleftrightarrow> len (Data e) = 0"

subsection \<open>Package registry: types\<close>

definition MaxProviders :: nat where
  "MaxProviders = 100"

definition DefaultProviderPriority :: int where
  "DefaultProviderPriority = 50"

text \<open>
  A factory returns a provider or an error; \<open>'v\<close> is the type of the configuration
  values (\<^verbatim>\<open>interface{}\<close>). A nil factory is \<^const>\<open>None\<close>.
\<close>

type_synonym 'v ProviderFactory = "(string, 'v) fmap \<Rightarrow> error + Provider"

record 'v ProviderInfo =
  Name :: string
  Aliases :: "string list"
  Factory :: "'v ProviderFactory option"
  Priority :: int
  Description :: string
  SupportedSources :: "string list"
  RequiredConfig :: "string list"
  OptionalConfig :: "string list"

record 'v Registry =
  providers :: "(string, 'v ProviderInfo) fmap"
  aliases :: "(string, string) fmap"

subsection \<open>Package registry: operations\<close>

definition NewRegistry :: "'v Registry" where
  "NewRegistry = \<lparr>providers = fmempty, aliases = fmempty\<rparr>"

text \<open>
  The loop of \<open>Register\<close> over \<^verbatim>\<open>info.Aliases\<close>: it returns at the first alias that
  is taken, with the aliases before it already stored.
\<close>

fun registerAliases ::
  "'v Registry \<Rightarrow> string \<Rightarrow> string list \<Rightarrow> 'v Registry \<times> error option" where
  "registerAliases r name [] = (r, None)"
| "registerAliases r name (a # as) =
     (let alias = TrimSpace a in
      if alias \<noteq> [] then
        if fmlookup (providers r) alias \<noteq> None then (r, Some (AliasConflictsWithProvider alias))
        else if fmlookup (aliases r) alias \<noteq> None then (r, Some (AliasAlreadyRegistered alias))
        else registerAliases (r\<lparr>aliases := fmupd alias name (aliases r)\<rparr>) name as
      else registerAliases r name as)"

definition Register :: "'v Registry \<Rightarrow> 'v ProviderInfo option \<Rightarrow> 'v Registry \<times> error option" where
  "Register r info_ptr =
     (case info_ptr of
        None \<Rightarrow> (r, Some ProviderInfoNil)
      | Some info \<Rightarrow>
          if TrimSpace (Name info) = [] then (r, Some ProviderNameEmpty)
          else if Factory info = None then (r, Some ProviderFactoryNil)
          else if len (providers r) \<ge> MaxProviders then (r, Some (RegistryFull MaxProviders))
          else if fmlookup (providers r) (Name info) \<noteq> None
            then (r, Some (ProviderAlreadyRegistered (Name info)))
          else
            let info' = (if Priority info = 0 then info\<lparr>Priority := DefaultProviderPriority\<rparr>
                         else info);
                r' = r\<lparr>providers := fmupd (Name info') info' (providers r)\<rparr>
            in registerAliases r' (Name info') (Aliases info'))"

definition Unregister :: "'v Registry \<Rightarrow> string \<Rightarrow> 'v Registry \<times> error option" where
  "Unregister r name =
     (case fmlookup (providers r) name of
        None \<Rightarrow> (r, Some (ProviderNotFound name))
      | Some info \<Rightarrow>
          (r\<lparr>aliases := fold fmdrop (Aliases info) (aliases r),
              providers := fmdrop name (providers r)\<rparr>, None))"

definition resolveProviderName :: "'v Registry \<Rightarrow> string \<Rightarrow> string" where
  "resolveProviderName r name =
     (case fmlookup (aliases r) name of Some actualName \<Rightarrow> actualName | None \<Rightarrow> name)"

fun missingKey :: "string list \<Rightarrow> (string, 'v) fmap \<Rightarrow> error option" where
  "missingKey [] config = None"
| "missingKey (key # keys) config =
     (if fmlookup config key = None then Some (RequiredConfigKeyMissing key)
      else missingKey keys config)"

definition validateConfig :: "'v ProviderInfo \<Rightarrow> (string, 'v) fmap \<Rightarrow> error option" where
  "validateConfig info config = missingKey (RequiredConfig info) config"

definition CreateProvider :: "'v Registry \<Rightarrow> string \<Rightarrow> (string, 'v) fmap \<Rightarrow> error + Provider" where
  "CreateProvider r name config =
     (let providerName = resolveProviderName r name in
      case fmlookup (providers r) providerName of
        None \<Rightarrow> Inl (ProviderNotFound name)
      | Some info \<Rightarrow>
          (case validateConfig info config of
             Some err \<Rightarrow> Inl (ConfigValidationFailed err)
           | None \<Rightarrow>
               (case Factory info of
                  None \<Rightarrow> Inl NilFactoryCall
                | Some f \<Rightarrow>
                    (case f config of
                       Inl err \<Rightarrow> Inl (FailedToCreateProvider name err)
                     | Inr provider \<Rightarrow> Inr provider))))"

definition IsProviderRegistered :: "'v Registry \<Rightarrow> string \<Rightarrow> bool" where
  "IsProviderRegistered r name \<longleftrightarrow> fmlookup (providers r) (resolveProviderName r name) \<noteq> None"

text \<open>
  A run of \<open>Register\<close> and \<open>Unregister\<close> calls, whatever each call returns: the
  registry is a shared object, and a call that returns an error leaves it as that call
  left it.
\<close>

datatype 'v registry_op = OpRegister "'v ProviderInfo option" | OpUnregister string

fun apply_op :: "'v Registry \<Rightarrow> 'v registry_op \<Rightarrow> 'v Registry" where
  "apply_op r (OpRegister info_ptr) = fst (Register r info_ptr)"
| "apply_op r (OpUnregister name) = fst (Unregister r name)"

definition run_ops :: "'v registry_op list \<Rightarrow> 'v Registry" where
  "run_ops ops = foldl apply_op NewRegistry ops"

subsection \<open>Concrete inputs\<close>

text \<open>
  Providers: one that accepts every source and loads nothing, one that loads the same
  entries from every source, one whose \<open>Validate\<close> refuses every source and one whose
  \<open>Load\<close> fails on every source.
\<close>

definition stub_provider :: Provider where
  "stub_provider = \<lparr>provName = ''stub'', provLoad = (\<lambda>_. Inr []), provValidate = (\<lambda>_. None)\<rparr>"

definition const_provider :: "(string \<times> string) list \<Rightarrow> Provider" where
  "const_provider entries =
     \<lparr>provName = ''const'', provLoad = (\<lambda>_. Inr entries), provValidate = (\<lambda>_. None)\<rparr>"

definition rejecting_provider :: Provider where
  "rejecting_provider =
     \<lparr>provName = ''rejecting'', provLoad = (\<lambda>_. Inr []),
      provValidate = (\<lambda>_. Some (ExternalError ''bad source''))\<rparr>"

definition broken_provider :: Provider where
  "broken_provider =
     \<lparr>provName = ''broken'', provLoad = (\<lambda>_. Inl (ExternalError ''read failed'')),
      provValidate = (\<lambda>_. None)\<rparr>"

text \<open>A validator that refuses every mapping.\<close>

definition refusing_validator :: Validator where
  "refusing_validator = (\<lambda>_. Some (ExternalError ''schema mismatch''))"

text \<open>Factories: one that succeeds and one that fails, and a record around a factory.\<close>

definition stub_factory :: "string ProviderFactory" where
  "stub_factory = (\<lambda>_. Inr stub_provider)"

definition failing_factory :: "string ProviderFactory" where
  "failing_factory = (\<lambda>_. Inl (ExternalError ''connection refused''))"

definition mkInfo :: "string \<Rightarrow> string list \<Rightarrow> string ProviderFactory \<Rightarrow> string ProviderInfo" where
  "mkInfo name als f =
     \<lparr>Name = name, Aliases = als, Factory = Some f, Priority = 0, Description = [],
      SupportedSources = [], RequiredConfig = [], OptionalConfig = []\<rparr>"

text \<open>
  The registry after \<open>vault\<close> is registered with the alias \<open>hcvault\<close> and the required
  key \<open>token\<close>, as \<^verbatim>\<open>initializeVaultProvider\<close> does.
\<close>

definition vault_registry :: "string ProviderFactory \<Rightarrow> string Registry" where
  "vault_registry f =
     fst (Register NewRegistry
            (Some ((mkInfo ''vault'' [''hcvault''] f)\<lparr>RequiredConfig := [''token'']\<rparr>)))"

text \<open>
  Clients: one whose provider \<open>default\<close> loads the given entries, and one with the
  providers \<open>a\<close> (which loads \<open>K=1\<close>), \<open>b\<close> (which loads \<open>K=2\<close>), \<open>rejecting\<close> and
  \<open>broken\<close>.
\<close>

definition default_client :: "(string \<times> string) list \<Rightarrow> Client" where
  "default_client entries = AddProvider New ''default'' (const_provider entries)"

definition example_client :: Client where
  "example_client =
     AddProvider (AddProvider (AddProvider (AddProvider New
       ''a'' (const_provider [(''K'', ''1'')]))
       ''b'' (const_provider [(''K'', ''2'')]))
       ''rejecting'' rejecting_provider)
       ''broken'' broken_provider"

text \<open>
  \<open>n\<close> entries with the keys \<open>k\<close>, \<open>kk\<close>, \<open>kkk\<close>, ... and empty values; a key of 257
  bytes and a value of 4097 bytes; and the environment that \<open>Load\<close> returns for one
  source of 10000 entries.
\<close>

definition many_entries :: "nat \<Rightarrow> (string \<times> string) list" where
  "many_entries n = map (\<lambda>i. (replicate (Suc i) (CHR ''k''), [])) [0..<n]"

definition long_key :: string where
  "long_key = replicate 257 (CHR ''x'')"

definition long_value :: string where
  "long_value = replicate 4097 (CHR ''v'')"

definition full_environment :: Environment where
  "full_environment =
     \<lparr>Data = fst (mergeConfiguration fmempty (many_entries 10000) MergeStrategyOverride),
      Sources = [\<lparr>srcName = ''.env'', srcProvider = ''default'', KeyCount = 10000\<rparr>],
      client = default_client (many_entries 10000)\<rparr>"

section \<open>Properties\<close>

subsection \<open>Maps, strings and the concrete inputs\<close>

lemma len_fmempty [simp]: "len fmempty = 0"
  by (simp add: len_def fcard_fempty)

lemma len_fmupd: "len (fmupd k v m) = (if fmlookup m k = None then Suc (len m) else len m)"
  by (auto simp: len_def fcard_finsert_if fmlookup_dom_iff)

lemma TrimSpace_literals:
  "TrimSpace ''local'' = ''local''" "TrimSpace ''remote'' = ''remote''"
  "TrimSpace ''net'' = ''net''" "TrimSpace ''file'' = ''file''"
  "TrimSpace ''vault'' = ''vault''" "TrimSpace ''hcvault'' = ''hcvault''"
  by (simp_all add: TrimSpace_def spaceRunes_def)

text \<open>White space of more than one byte is trimmed, and a name made of it is empty.\<close>

lemma TrimSpace_no_break_space:
  "TrimSpace [CHR 0xC2, CHR 0xA0] = []"
  "TrimSpace [CHR 0xE2, CHR 0x80, CHR 0x83, CHR ''k'', CHR ''8'', CHR ''s'', CHR 0xC2, CHR 0x85]
     = ''k8s''"
  by (simp_all add: TrimSpace_def spaceRunes_def)

lemma SplitN_2_no_sep: "sep \<notin> set s \<Longrightarrow> SplitN s sep 2 = [s]"
  by (simp add: numeral_2_eq_2)

lemma takeWhile_upto_sep: "sep \<notin> set p \<Longrightarrow> takeWhile (\<lambda>c. c \<noteq> sep) (p @ sep # r) = p"
  by (induction p) auto

lemma dropWhile_upto_sep: "sep \<notin> set p \<Longrightarrow> dropWhile (\<lambda>c. c \<noteq> sep) (p @ sep # r) = sep # r"
  by (induction p) auto

lemma SplitN_2_sep: "sep \<notin> set p \<Longrightarrow> SplitN (p @ sep # r) sep 2 = [p, r]"
  by (simp add: numeral_2_eq_2 takeWhile_upto_sep dropWhile_upto_sep
        del: takeWhile_append dropWhile_append)

lemma parseSource_literals:
  "parseSource ''a:one'' = (''a'', ''one'')"
  "parseSource ''b:two'' = (''b'', ''two'')"
  "parseSource ''rejecting:x'' = (''rejecting'', ''x'')"
  "parseSource ''broken:x'' = (''broken'', ''x'')"
  "parseSource ''ghost:path'' = (''ghost'', ''path'')"
  "parseSource ''.env'' = (''default'', ''.env'')"
  by (simp_all add: parseSource_def SourceProviderParts_def MinSourceParts_def numeral_2_eq_2
        DefaultProviderName_def)

lemma default_client_simps:
  "cl_providers (default_client entries) = fmupd ''default'' (const_provider entries) fmempty"
  "validator (default_client entries) = None"
  by (simp_all add: default_client_def AddProvider_def New_def client_MaxProviders_def)

lemma example_client_simps:
  "fmlookup (cl_providers example_client) ''a'' = Some (const_provider [(''K'', ''1'')])"
  "fmlookup (cl_providers example_client) ''b'' = Some (const_provider [(''K'', ''2'')])"
  "fmlookup (cl_providers example_client) ''rejecting'' = Some rejecting_provider"
  "fmlookup (cl_providers example_client) ''broken'' = Some broken_provider"
  "fmlookup (cl_providers example_client) ''ghost'' = None"
  "validator example_client = None"
  by (simp_all add: example_client_def AddProvider_def New_def len_fmupd client_MaxProviders_def)

lemma vault_registry_simps:
  "fmlookup (aliases (vault_registry f)) ''hcvault'' = Some ''vault''"
  "fmlookup (aliases (vault_registry f)) ''vault'' = None"
  "fmlookup (aliases (vault_registry f)) ''ghost'' = None"
  "fmlookup (providers (vault_registry f)) ''ghost'' = None"
  "fmlookup (providers (vault_registry f)) ''vault'' =
     Some \<lparr>Name = ''vault'', Aliases = [''hcvault''], Factory = Some f,
           Priority = DefaultProviderPriority, Description = [], SupportedSources = [],
           RequiredConfig = [''token''], OptionalConfig = []\<rparr>"
  by (simp_all add: vault_registry_def Register_def NewRegistry_def mkInfo_def MaxProviders_def
        Let_def TrimSpace_literals)

lemma many_entries_distinct: "distinct (map fst (many_entries n))"
proof -
  have "inj_on (\<lambda>i. replicate (Suc i) (CHR ''k'')) A" for A :: "nat set"
    by (rule inj_onI) (auto dest: arg_cong [where f = length])
  then show ?thesis
    by (simp add: many_entries_def comp_def distinct_map del: replicate.simps)
qed

lemma length_many_entries: "length (many_entries n) = n"
  by (simp add: many_entries_def)

subsection \<open>The merge loop\<close>

text \<open>
  The entries of a Go map have distinct keys: \<open>distinct (map fst src)\<close> says so of the
  list of entries that stands for the map ranged over.
\<close>

lemma merge_no_error:
  "strategy \<noteq> MergeStrategyError \<Longrightarrow> snd (mergeConfiguration t src strategy) = None"
  by (induction t src strategy rule: mergeConfiguration.induct) (auto split: option.splits)

lemma merge_dom:
  "snd (mergeConfiguration t src strategy) = None \<Longrightarrow>
   fmdom (fst (mergeConfiguration t src strategy)) = fmdom t |\<union>| fset_of_list (map fst src)"
  by (induction t src strategy rule: mergeConfiguration.induct)
     (auto split: option.splits if_splits simp: fmlookup_dom_iff)

lemma merge_Preserve_lookup:
  "fmlookup (fst (mergeConfiguration t src MergeStrategyPreserve)) k =
     (case fmlookup t k of Some v \<Rightarrow> Some v | None \<Rightarrow> map_of src k)"
  by (induction t src MergeStrategyPreserve rule: mergeConfiguration.induct)
     (auto split: option.splits simp: MergeStrategyPreserve_def MergeStrategyError_def)

lemma merge_Override_lookup:
  "strategy \<noteq> MergeStrategyError \<Longrightarrow> strategy \<noteq> MergeStrategyPreserve \<Longrightarrow>
   distinct (map fst src) \<Longrightarrow>
   fmlookup (fst (mergeConfiguration t src strategy)) k =
     (case map_of src k of Some v \<Rightarrow> Some v | None \<Rightarrow> fmlookup t k)"
proof (induction t src strategy rule: mergeConfiguration.induct)
  case (1 target strategy)
  then show ?case by simp
next
  case (2 target key "value" rest strategy)
  have nk: "map_of rest key = None"
    using "2.prems"(3) by (simp add: map_of_eq_None_iff)
  show ?case
    using 2 nk by (auto split: option.splits)
qed

lemma merge_fresh:
  "distinct (map fst src) \<Longrightarrow> \<forall>e \<in> set src. fmlookup t (fst e) = None \<Longrightarrow>
   snd (mergeConfiguration t src strategy) = None"
proof (induction src arbitrary: t)
  case Nil
  then show ?case by simp
next
  case (Cons e rest)
  obtain key val where e: "e = (key, val)" by (cases e)
  have fresh: "fmlookup t key = None"
    using Cons.prems(2) e by simp
  have "\<forall>e' \<in> set rest. fmlookup (fmupd key val t) (fst e') = None"
    using Cons.prems e by auto
  moreover have "distinct (map fst rest)"
    using Cons.prems(1) by simp
  ultimately have "snd (mergeConfiguration (fmupd key val t) rest strategy) = None"
    using Cons.IH by blast
  then show ?case using fresh e by simp
qed

lemma merge_Error_conflict:
  "distinct (map fst src) \<Longrightarrow> (k, v) \<in> set src \<Longrightarrow> fmlookup t k \<noteq> None \<Longrightarrow>
   \<exists>k' old new. fmlookup t k' = Some old \<and> (k', new) \<in> set src \<and>
     snd (mergeConfiguration t src MergeStrategyError) = Some (DuplicateKeyFound k' old new)"
proof (induction src arbitrary: t)
  case Nil
  then show ?case by simp
next
  case (Cons e rest)
  obtain key val where e: "e = (key, val)" by (cases e)
  show ?case
  proof (cases "fmlookup t key")
    case (Some existing)
    then show ?thesis using e by auto
  next
    case None
    let ?t' = "fmupd key val t"
    have kne: "k \<noteq> key" using None Cons.prems(3) by auto
    have in_rest: "(k, v) \<in> set rest" using Cons.prems(2) e kne by auto
    have "fmlookup ?t' k \<noteq> None" using Cons.prems(3) by simp
    moreover have d: "distinct (map fst rest)" using Cons.prems(1) by simp
    ultimately obtain k' old new where
      IH: "fmlookup ?t' k' = Some old" "(k', new) \<in> set rest"
          "snd (mergeConfiguration ?t' rest MergeStrategyError) = Some (DuplicateKeyFound k' old new)"
      using Cons.IH [OF _ in_rest, of ?t'] by blast
    have "k' \<noteq> key" using IH(2) Cons.prems(1) e by (auto simp: image_iff)
    then have "fmlookup t k' = Some old" using IH(1) by simp
    then show ?thesis using IH(2,3) None e by auto
  qed
qed

lemma merge_into_empty:
  assumes "distinct (map fst src)"
  shows "snd (mergeConfiguration fmempty src strategy) = None"
    and "len (fst (mergeConfiguration fmempty src strategy)) = length src"
proof -
  show ok: "snd (mergeConfiguration fmempty src strategy) = None"
    using assms by (simp add: merge_fresh)
  have "fmdom (fst (mergeConfiguration fmempty src strategy)) = fset_of_list (map fst src)"
    using merge_dom [OF ok] by simp
  then have "len (fst (mergeConfiguration fmempty src strategy)) = card (set (map fst src))"
    by (simp add: len_def fcard.rep_eq fset_of_list.rep_eq)
  also have "\<dots> = length src"
    using distinct_card [OF assms] by simp
  finally show "len (fst (mergeConfiguration fmempty src strategy)) = length src" .
qed

lemma merge_Override_existing_keys:
  assumes wf: "distinct (map fst config)"
      and ex: "\<forall>e \<in> set config. fmlookup t (fst e) \<noteq> None"
  shows "snd (mergeConfiguration t config MergeStrategyOverride) = None"
    and "len (fst (mergeConfiguration t config MergeStrategyOverride)) = len t"
    and "(k, v) \<in> set config \<Longrightarrow>
         fmlookup (fst (mergeConfiguration t config MergeStrategyOverride)) k = Some v"
proof -
  have s: "MergeStrategyOverride \<noteq> MergeStrategyError"
    "MergeStrategyOverride \<noteq> MergeStrategyPreserve"
    by (simp_all add: MergeStrategyOverride_def MergeStrategyError_def MergeStrategyPreserve_def)
  show ok: "snd (mergeConfiguration t config MergeStrategyOverride) = None"
    by (rule merge_no_error [OF s(1)])
  have "fset_of_list (map fst config) |\<subseteq>| fmdom t"
    using ex by (fastforce simp: fset_of_list_elem fmlookup_dom_iff)
  then have "fmdom (fst (mergeConfiguration t config MergeStrategyOverride)) = fmdom t"
    using merge_dom [OF ok] by auto
  then show "len (fst (mergeConfiguration t config MergeStrategyOverride)) = len t"
    by (simp add: len_def)
  assume "(k, v) \<in> set config"
  then have m: "map_of config k = Some v"
    using wf by (simp add: map_of_is_SomeI)
  have "fmlookup (fst (mergeConfiguration t config MergeStrategyOverride)) k =
          (case map_of config k of Some v \<Rightarrow> Some v | None \<Rightarrow> fmlookup t k)"
    by (rule merge_Override_lookup [OF s wf])
  then show "fmlookup (fst (mergeConfiguration t config MergeStrategyOverride)) k = Some v"
    by (simp only: m option.case)
qed

subsection \<open>The load loop\<close>

lemma loadFromSource_loaded:
  "parseSource s = (pn, path) \<Longrightarrow> fmlookup (cl_providers c) pn = Some P \<Longrightarrow>
   provValidate P path = None \<Longrightarrow> provLoad P path = Inr config \<Longrightarrow>
   loadFromSource c s env strategy =
     (case mergeConfiguration (Data env) config strategy of
        (d, Some err) \<Rightarrow> (env\<lparr>Data := d\<rparr>, Some err)
      | (d, None) \<Rightarrow>
          (env\<lparr>Data := d,
               Sources := Sources env @
                 [\<lparr>srcName = s, srcProvider = pn,
                   KeyCount = int (len d) - int (len (Data env))\<rparr>]\<rparr>, None))"
  by (simp add: loadFromSource_def Let_def)

lemma loadFromSource_error_iff:
  assumes "parseSource s = (pn, path)"
  shows "snd (loadFromSource c s acc strategy) \<noteq> None \<longleftrightarrow>
     (fmlookup (cl_providers c) pn = None
      \<or> (\<exists>P. fmlookup (cl_providers c) pn = Some P \<and>
            (provValidate P path \<noteq> None
             \<or> (\<exists>e. provLoad P path = Inl e)
             \<or> (\<exists>config. provLoad P path = Inr config \<and>
                   snd (mergeConfiguration (Data acc) config strategy) \<noteq> None))))"
  using assms
  by (auto simp: loadFromSource_def Let_def split: option.splits sum.splits prod.splits)

lemma loadSources_append:
  "loadSources c (pre @ rest) env strategy =
     (case loadSources c pre env strategy of
        (env', Some err) \<Rightarrow> (env', Some err)
      | (env', None) \<Rightarrow> loadSources c rest env' strategy)"
  by (induction pre arbitrary: env) (auto split: prod.splits option.splits)

lemma Load_sources_failed:
  "optSources opts \<noteq> [] \<Longrightarrow>
   loadSources c (optSources opts) (newEnvironment c) (optMergeStrategy opts) = (env', Some err) \<Longrightarrow>
   Load c opts = (None, Some err)"
  by (simp add: Load_def)

lemma Load_nil_iff_error: "fst (Load c opts) = None \<longleftrightarrow> snd (Load c opts) \<noteq> None"
  by (auto simp: Load_def Let_def split: prod.splits option.splits)

lemma loadSources_default_client:
  assumes "distinct (map fst entries)"
  shows "loadSources (default_client entries) [''.env''] (newEnvironment (default_client entries)) strategy =
     (\<lparr>Data = fst (mergeConfiguration fmempty entries strategy),
       Sources = [\<lparr>srcName = ''.env'', srcProvider = ''default'', KeyCount = int (length entries)\<rparr>],
       client = default_client entries\<rparr>, None)"
proof -
  obtain d where m: "mergeConfiguration fmempty entries strategy = (d, None)"
    using merge_into_empty(1) [OF assms, of strategy]
    by (cases "mergeConfiguration fmempty entries strategy") auto
  have l: "len d = length entries"
    using merge_into_empty(2) [OF assms, of strategy] m by simp
  show ?thesis
    by (simp add: loadFromSource_def parseSource_literals default_client_simps const_provider_def
          newEnvironment_def m l)
qed

lemma example_client_first_source:
  "loadSources example_client [''a:one''] (newEnvironment example_client) strategy =
     (\<lparr>Data = fmupd ''K'' ''1'' fmempty,
       Sources = [\<lparr>srcName = ''a:one'', srcProvider = ''a'', KeyCount = 1\<rparr>],
       client = example_client\<rparr>, None)"
  by (simp add: loadFromSource_def parseSource_literals example_client_simps
        const_provider_def newEnvironment_def len_fmupd)

lemma len_full_environment: "len (Data full_environment) = 10000"
  by (simp add: full_environment_def merge_into_empty(2) many_entries_distinct
        length_many_entries)

lemma Load_full_environment:
  "Load (default_client (many_entries 10000))
     \<lparr>optSources = [''.env''], Schema = [], optMergeStrategy = MergeStrategyOverride\<rparr>
   = (Some full_environment, None)"
  using len_full_environment
  by (simp add: Load_def loadSources_default_client many_entries_distinct length_many_entries
        default_client_simps MaxEnvironmentKeys_def full_environment_def
        del: loadSources.simps)

lemma long_key_fresh: "fmlookup (Data full_environment) long_key = None"
proof -
  have ok: "snd (mergeConfiguration fmempty (many_entries 10000) MergeStrategyOverride) = None"
    by (rule merge_into_empty(1) [OF many_entries_distinct])
  have "long_key \<notin> set (map fst (many_entries 10000))"
    by (auto simp: many_entries_def long_key_def replicate_eq_replicate simp del: replicate.simps)
  then have "long_key |\<notin>| fmdom (Data full_environment)"
    using merge_dom [OF ok]
    by (simp add: full_environment_def fset_of_list_elem fset_of_list.rep_eq)
  then show ?thesis by (rule fmdom_notD)
qed

lemma missingKey_Some:
  "key \<in> set keys \<Longrightarrow> fmlookup config key = None \<Longrightarrow>
   \<exists>key' \<in> set keys. fmlookup config key' = None \<and>
      missingKey keys config = Some (RequiredConfigKeyMissing key')"
  by (induction keys) auto

subsection \<open>Registration\<close>

text \<open>
  C1. The claim: a \<open>Register\<close> that returns an error leaves both maps as they were.
  \<open>Register\<close> stores the provider before it looks at the aliases, and stores each
  alias before it looks at the next one. Here \<open>local\<close> is registered, and \<open>remote\<close>
  with the aliases \<open>net\<close> and \<open>local\<close> is refused for its second alias: the call
  returns the error, and \<open>remote\<close> and \<open>net\<close>, absent before the call, are in the
  maps after it.
\<close>

theorem Register_alias_collision_keeps_partial_entry:
  "let r0 = fst (Register NewRegistry (Some (mkInfo ''local'' [] stub_factory)));
       res = Register r0 (Some (mkInfo ''remote'' [''net'', ''local''] stub_factory))
   in snd res = Some (AliasConflictsWithProvider ''local'')
      \<and> fmlookup (providers r0) ''remote'' = None
      \<and> fmlookup (providers (fst res)) ''remote'' \<noteq> None
      \<and> fmlookup (aliases r0) ''net'' = None
      \<and> fmlookup (aliases (fst res)) ''net'' = Some ''remote''"
  by (simp add: Register_def NewRegistry_def mkInfo_def MaxProviders_def len_fmupd Let_def
        TrimSpace_literals)

text \<open>
  C2. The claim: after any run of \<open>Register\<close> and \<open>Unregister\<close> from the empty
  registry no string is both a provider name and an alias, and \<open>Register\<close> refuses a
  name that is a registered alias. \<open>Register\<close> looks the new name up among the
  provider names only. Here \<open>local\<close> is registered with the alias \<open>file\<close>, and then
  a provider named \<open>file\<close>: the second call returns no error, \<open>file\<close> is a key of
  both maps, and the name \<open>file\<close> resolves to \<open>local\<close>.
\<close>

theorem Register_accepts_name_equal_to_alias:
  "let local = Some (mkInfo ''local'' [''file''] stub_factory);
       file = Some (mkInfo ''file'' [] stub_factory);
       res = Register (fst (Register NewRegistry local)) file
   in snd res = None
      \<and> fst res = run_ops [OpRegister local, OpRegister file]
      \<and> ''file'' |\<in>| fmdom (providers (fst res))
      \<and> ''file'' |\<in>| fmdom (aliases (fst res))
      \<and> resolveProviderName (fst res) ''file'' = ''local''"
  by (simp add: Register_def NewRegistry_def mkInfo_def MaxProviders_def len_fmupd Let_def
        TrimSpace_literals run_ops_def resolveProviderName_def)

subsection \<open>Creating a provider\<close>

text \<open>
  C9. The claim: \<open>CreateProvider\<close> gives the same result for an alias as for the
  canonical name. When the factory fails, the error of \<open>CreateProvider\<close> carries the
  name the caller gave, so the two results differ: here \<open>local\<close> has the alias \<open>file\<close>
  and a factory that fails.
\<close>

theorem CreateProvider_error_names_the_given_name:
  "CreateProvider (fst (Register NewRegistry (Some (mkInfo ''local'' [''file''] failing_factory))))
      ''file'' fmempty
     = Inl (FailedToCreateProvider ''file'' (ExternalError ''connection refused''))
   \<and> CreateProvider (fst (Register NewRegistry (Some (mkInfo ''local'' [''file''] failing_factory))))
      ''local'' fmempty
     = Inl (FailedToCreateProvider ''local'' (ExternalError ''connection refused''))
   \<and> CreateProvider (fst (Register NewRegistry (Some (mkInfo ''local'' [''file''] failing_factory))))
      ''file'' fmempty
     \<noteq> CreateProvider (fst (Register NewRegistry (Some (mkInfo ''local'' [''file''] failing_factory))))
      ''local'' fmempty"
  by (simp add: CreateProvider_def resolveProviderName_def validateConfig_def Register_def
        NewRegistry_def mkInfo_def MaxProviders_def Let_def TrimSpace_literals
        failing_factory_def)

text \<open>
  C9, as amended. Let \<open>alias\<close> be an alias of \<open>name\<close>, \<open>name\<close> a registered
  provider and not itself an alias. Then \<open>CreateProvider\<close> resolves both to the record
  of \<open>name\<close>: it fails for both with the same error when a required key is missing
  from the configuration, returns for both the provider the factory makes, and when the
  factory fails, fails for both with the factory's error, wrapped with the name the
  caller gave. For any name, \<open>CreateProvider\<close> fails when the name resolves to no
  registered provider, and when a key of \<open>RequiredConfig\<close> is absent from the
  configuration.
\<close>

theorem CreateProvider_alias_resolves_to_canonical:
  assumes al: "fmlookup (aliases r) alias = Some name"
      and nm: "fmlookup (aliases r) name = None"
      and reg: "fmlookup (providers r) name = Some info"
  shows "(validateConfig info config = Some err \<longrightarrow>
            CreateProvider r alias config = Inl (ConfigValidationFailed err) \<and>
            CreateProvider r name config = Inl (ConfigValidationFailed err))
       \<and> (validateConfig info config = None \<and> Factory info = Some factory \<and> factory config = Inr p \<longrightarrow>
            CreateProvider r alias config = Inr p \<and> CreateProvider r name config = Inr p)
       \<and> (validateConfig info config = None \<and> Factory info = Some factory \<and> factory config = Inl err \<longrightarrow>
            CreateProvider r alias config = Inl (FailedToCreateProvider alias err) \<and>
            CreateProvider r name config = Inl (FailedToCreateProvider name err))
       \<and> (fmlookup (providers r) (resolveProviderName r x) = None \<longrightarrow>
            CreateProvider r x config = Inl (ProviderNotFound x))
       \<and> (fmlookup (providers r) (resolveProviderName r x) = Some info' \<and>
          key \<in> set (RequiredConfig info') \<and> fmlookup config key = None \<longrightarrow>
            (\<exists>key' \<in> set (RequiredConfig info'). fmlookup config key' = None \<and>
               CreateProvider r x config =
                 Inl (ConfigValidationFailed (RequiredConfigKeyMissing key'))))"
proof -
  have ra: "resolveProviderName r alias = name" and rn: "resolveProviderName r name = name"
    using al nm by (simp_all add: resolveProviderName_def)
  have 1: "validateConfig info config = Some err \<longrightarrow>
            CreateProvider r alias config = Inl (ConfigValidationFailed err) \<and>
            CreateProvider r name config = Inl (ConfigValidationFailed err)"
    by (simp add: CreateProvider_def ra rn reg)
  have 2: "validateConfig info config = None \<and> Factory info = Some factory \<and> factory config = Inr p \<longrightarrow>
            CreateProvider r alias config = Inr p \<and> CreateProvider r name config = Inr p"
    by (simp add: CreateProvider_def ra rn reg)
  have 3: "validateConfig info config = None \<and> Factory info = Some factory \<and> factory config = Inl err \<longrightarrow>
            CreateProvider r alias config = Inl (FailedToCreateProvider alias err) \<and>
            CreateProvider r name config = Inl (FailedToCreateProvider name err)"
    by (simp add: CreateProvider_def ra rn reg)
  have 4: "fmlookup (providers r) (resolveProviderName r x) = None \<longrightarrow>
            CreateProvider r x config = Inl (ProviderNotFound x)"
    by (simp add: CreateProvider_def)
  have 5: "fmlookup (providers r) (resolveProviderName r x) = Some info' \<and>
          key \<in> set (RequiredConfig info') \<and> fmlookup config key = None \<longrightarrow>
            (\<exists>key' \<in> set (RequiredConfig info'). fmlookup config key' = None \<and>
               CreateProvider r x config =
                 Inl (ConfigValidationFailed (RequiredConfigKeyMissing key')))"
  proof
    assume a: "fmlookup (providers r) (resolveProviderName r x) = Some info' \<and>
          key \<in> set (RequiredConfig info') \<and> fmlookup config key = None"
    then obtain key' where k: "key' \<in> set (RequiredConfig info')" "fmlookup config key' = None"
        "missingKey (RequiredConfig info') config = Some (RequiredConfigKeyMissing key')"
      using missingKey_Some [of key "RequiredConfig info'" config] by blast
    have "CreateProvider r x config =
            Inl (ConfigValidationFailed (RequiredConfigKeyMissing key'))"
      using a k(3) by (simp add: CreateProvider_def validateConfig_def)
    then show "\<exists>key' \<in> set (RequiredConfig info'). fmlookup config key' = None \<and>
               CreateProvider r x config =
                 Inl (ConfigValidationFailed (RequiredConfigKeyMissing key'))"
      using k(1,2) by blast
  qed
  show ?thesis using 1 2 3 4 5 by blast
qed

theorem CreateProvider_alias_resolves_to_canonical_witness:
  "fmlookup (aliases (vault_registry stub_factory)) ''hcvault'' = Some ''vault''
   \<and> fmlookup (aliases (vault_registry stub_factory)) ''vault'' = None
   \<and> fmlookup (providers (vault_registry stub_factory)) ''vault'' \<noteq> None
   \<and> CreateProvider (vault_registry stub_factory) ''hcvault'' fmempty
       = Inl (ConfigValidationFailed (RequiredConfigKeyMissing ''token''))
   \<and> CreateProvider (vault_registry stub_factory) ''vault'' fmempty
       = Inl (ConfigValidationFailed (RequiredConfigKeyMissing ''token''))
   \<and> CreateProvider (vault_registry stub_factory) ''hcvault'' (fmupd ''token'' ''s3cret'' fmempty)
       = Inr stub_provider
   \<and> CreateProvider (vault_registry stub_factory) ''vault'' (fmupd ''token'' ''s3cret'' fmempty)
       = Inr stub_provider
   \<and> CreateProvider (vault_registry failing_factory) ''hcvault'' (fmupd ''token'' ''s3cret'' fmempty)
       = Inl (FailedToCreateProvider ''hcvault'' (ExternalError ''connection refused''))
   \<and> CreateProvider (vault_registry failing_factory) ''vault'' (fmupd ''token'' ''s3cret'' fmempty)
       = Inl (FailedToCreateProvider ''vault'' (ExternalError ''connection refused''))
   \<and> CreateProvider (vault_registry stub_factory) ''ghost'' fmempty
       = Inl (ProviderNotFound ''ghost'')"
proof -
  let ?info = "\<lambda>f. \<lparr>Name = ''vault'', Aliases = [''hcvault''], Factory = Some f,
           Priority = DefaultProviderPriority, Description = [], SupportedSources = [],
           RequiredConfig = [''token''], OptionalConfig = []\<rparr> :: string ProviderInfo"
  let ?cfg = "fmupd ''token'' ''s3cret'' fmempty :: (string, string) fmap"
  note S = CreateProvider_alias_resolves_to_canonical
    [OF vault_registry_simps(1) [of stub_factory] vault_registry_simps(2) [of stub_factory]
        vault_registry_simps(5) [of stub_factory]]
  note F = CreateProvider_alias_resolves_to_canonical
    [OF vault_registry_simps(1) [of failing_factory] vault_registry_simps(2) [of failing_factory]
        vault_registry_simps(5) [of failing_factory]]
  have v0: "validateConfig (?info f) fmempty = Some (RequiredConfigKeyMissing ''token'')"
    and v1: "validateConfig (?info f) ?cfg = None" for f
    by (simp_all add: validateConfig_def)
  have a: "CreateProvider (vault_registry stub_factory) ''hcvault'' fmempty
             = Inl (ConfigValidationFailed (RequiredConfigKeyMissing ''token'')) \<and>
           CreateProvider (vault_registry stub_factory) ''vault'' fmempty
             = Inl (ConfigValidationFailed (RequiredConfigKeyMissing ''token''))"
    by (rule S [where config = fmempty, THEN conjunct1, THEN mp, OF v0])
  have b: "CreateProvider (vault_registry stub_factory) ''hcvault'' ?cfg = Inr stub_provider \<and>
           CreateProvider (vault_registry stub_factory) ''vault'' ?cfg = Inr stub_provider"
    by (rule S [where config = ?cfg and factory = stub_factory,
                THEN conjunct2, THEN conjunct1, THEN mp])
       (simp add: v1 stub_factory_def)
  have c: "CreateProvider (vault_registry failing_factory) ''hcvault'' ?cfg
             = Inl (FailedToCreateProvider ''hcvault'' (ExternalError ''connection refused'')) \<and>
           CreateProvider (vault_registry failing_factory) ''vault'' ?cfg
             = Inl (FailedToCreateProvider ''vault'' (ExternalError ''connection refused''))"
    by (rule F [where config = ?cfg and factory = failing_factory,
                THEN conjunct2, THEN conjunct2, THEN conjunct1, THEN mp])
       (simp add: v1 failing_factory_def)
  have d: "CreateProvider (vault_registry stub_factory) ''ghost'' fmempty
             = Inl (ProviderNotFound ''ghost'')"
    by (rule S [where x = "''ghost''",
                THEN conjunct2, THEN conjunct2, THEN conjunct2, THEN conjunct1, THEN mp])
       (simp add: resolveProviderName_def vault_registry_simps)
  show ?thesis
    using a b c d by (simp add: vault_registry_simps)
qed

subsection \<open>Source specifiers\<close>

text \<open>
  C8. \<open>parseSource\<close> splits a specifier at its first colon into the provider name and
  the path; a specifier with no colon gets the provider name \<open>default\<close> and is the
  path as a whole.
\<close>

theorem parseSource_splits_on_first_colon:
  "(CHR '':'' \<notin> set s \<longrightarrow> parseSource s = (''default'', s)) \<and>
   (CHR '':'' \<notin> set p \<longrightarrow> parseSource (p @ CHR '':'' # r) = (p, r))"
  by (simp add: parseSource_def SourceProviderParts_def MinSourceParts_def
        DefaultProviderName_def SplitN_2_no_sep SplitN_2_sep del: SplitN.simps)

theorem parseSource_splits_on_first_colon_witness:
  "CHR '':'' \<notin> set ''.env'' \<and> parseSource ''.env'' = (''default'', ''.env'') \<and>
   CHR '':'' \<notin> set ''vault'' \<and>
   parseSource (''vault'' @ CHR '':'' # ''kv/app:v2'') = (''vault'', ''kv/app:v2'')"
  using parseSource_splits_on_first_colon [of "''.env''" "''vault''" "''kv/app:v2''"]
  by simp

subsection \<open>Merge strategies\<close>

text \<open>
  C4. Two sources are loaded in order; the provider of the first yields \<open>K=1\<close>, the
  provider of the second \<open>K=2\<close>. Under \<open>MergeStrategyOverride\<close> the environment maps
  \<open>K\<close> to \<open>2\<close>, under \<open>MergeStrategyPreserve\<close> to \<open>1\<close>, and neither returns an
  error. In general, under \<open>MergeStrategyOverride\<close> every key of the incoming map gets
  the incoming value, and under \<open>MergeStrategyPreserve\<close> every key of the target keeps
  its value.
\<close>

theorem merge_Override_and_Preserve:
  assumes A: "parseSource sA = (nA, pA)" "fmlookup (cl_providers c) nA = Some PA"
             "provValidate PA pA = None" "provLoad PA pA = Inr [(''K'', ''1'')]"
      and B: "parseSource sB = (nB, pB)" "fmlookup (cl_providers c) nB = Some PB"
             "provValidate PB pB = None" "provLoad PB pB = Inr [(''K'', ''2'')]"
      and V: "\<forall>v. validator c = Some v \<longrightarrow>
                 v (fmupd ''K'' ''2'' fmempty) = None \<and> v (fmupd ''K'' ''1'' fmempty) = None"
  shows "(\<exists>env. Load c \<lparr>optSources = [sA, sB], Schema = schema,
                         optMergeStrategy = MergeStrategyOverride\<rparr> = (Some env, None)
               \<and> Data env = fmupd ''K'' ''2'' fmempty)
       \<and> (\<exists>env. Load c \<lparr>optSources = [sA, sB], Schema = schema,
                         optMergeStrategy = MergeStrategyPreserve\<rparr> = (Some env, None)
               \<and> Data env = fmupd ''K'' ''1'' fmempty)
       \<and> (distinct (map fst src) \<and> (k, new) \<in> set src \<longrightarrow>
            snd (mergeConfiguration t src MergeStrategyOverride) = None \<and>
            fmlookup (fst (mergeConfiguration t src MergeStrategyOverride)) k = Some new)
       \<and> (fmlookup t k = Some old \<longrightarrow>
            snd (mergeConfiguration t src MergeStrategyPreserve) = None \<and>
            fmlookup (fst (mergeConfiguration t src MergeStrategyPreserve)) k = Some old)"
proof (intro conjI impI)
  have val: "(case validator c of None \<Rightarrow> None | Some v \<Rightarrow> v d) = None"
    if "d = fmupd ''K'' ''2'' fmempty \<or> d = fmupd ''K'' ''1'' fmempty" for d
    using V that by (cases "validator c") auto
  show "\<exists>env. Load c \<lparr>optSources = [sA, sB], Schema = schema,
                      optMergeStrategy = MergeStrategyOverride\<rparr> = (Some env, None)
            \<and> Data env = fmupd ''K'' ''2'' fmempty"
    by (simp add: Load_def newEnvironment_def loadFromSource_loaded [OF A]
          loadFromSource_loaded [OF B] val len_fmupd MaxEnvironmentKeys_def
          MergeStrategyOverride_def MergeStrategyPreserve_def MergeStrategyError_def)
  show "\<exists>env. Load c \<lparr>optSources = [sA, sB], Schema = schema,
                      optMergeStrategy = MergeStrategyPreserve\<rparr> = (Some env, None)
            \<and> Data env = fmupd ''K'' ''1'' fmempty"
    by (simp add: Load_def newEnvironment_def loadFromSource_loaded [OF A]
          loadFromSource_loaded [OF B] val len_fmupd MaxEnvironmentKeys_def
          MergeStrategyOverride_def MergeStrategyPreserve_def MergeStrategyError_def)
next
  show "snd (mergeConfiguration t src MergeStrategyOverride) = None"
    by (simp add: merge_no_error MergeStrategyOverride_def MergeStrategyError_def)
next
  assume a: "distinct (map fst src) \<and> (k, new) \<in> set src"
  then have d: "distinct (map fst src)" and m: "map_of src k = Some new"
    by (simp_all add: map_of_is_SomeI)
  have "fmlookup (fst (mergeConfiguration t src MergeStrategyOverride)) k =
          (case map_of src k of Some v \<Rightarrow> Some v | None \<Rightarrow> fmlookup t k)"
    by (rule merge_Override_lookup [OF _ _ d])
       (simp_all add: MergeStrategyOverride_def MergeStrategyError_def MergeStrategyPreserve_def)
  then show "fmlookup (fst (mergeConfiguration t src MergeStrategyOverride)) k = Some new"
    by (simp only: m option.case)
next
  show "snd (mergeConfiguration t src MergeStrategyPreserve) = None"
    by (simp add: merge_no_error MergeStrategyPreserve_def MergeStrategyError_def)
next
  assume "fmlookup t k = Some old"
  then show "fmlookup (fst (mergeConfiguration t src MergeStrategyPreserve)) k = Some old"
    by (simp add: merge_Preserve_lookup)
qed

theorem merge_Override_and_Preserve_witness:
  "parseSource ''a:one'' = (''a'', ''one'')
   \<and> fmlookup (cl_providers example_client) ''a'' = Some (const_provider [(''K'', ''1'')])
   \<and> provLoad (const_provider [(''K'', ''1'')]) ''one'' = Inr [(''K'', ''1'')]
   \<and> parseSource ''b:two'' = (''b'', ''two'')
   \<and> fmlookup (cl_providers example_client) ''b'' = Some (const_provider [(''K'', ''2'')])
   \<and> provLoad (const_provider [(''K'', ''2'')]) ''two'' = Inr [(''K'', ''2'')]
   \<and> (\<exists>env. Load example_client \<lparr>optSources = [''a:one'', ''b:two''], Schema = [],
                  optMergeStrategy = MergeStrategyOverride\<rparr> = (Some env, None)
            \<and> Data env = fmupd ''K'' ''2'' fmempty)
   \<and> (\<exists>env. Load example_client \<lparr>optSources = [''a:one'', ''b:two''], Schema = [],
                  optMergeStrategy = MergeStrategyPreserve\<rparr> = (Some env, None)
            \<and> Data env = fmupd ''K'' ''1'' fmempty)
   \<and> fmlookup (fst (mergeConfiguration (fmupd ''K'' ''1'' fmempty)
                      [(''J'', ''0''), (''K'', ''2'')] MergeStrategyOverride)) ''K'' = Some ''2''
   \<and> fmlookup (fst (mergeConfiguration (fmupd ''K'' ''1'' fmempty)
                      [(''J'', ''0''), (''K'', ''2'')] MergeStrategyPreserve)) ''K'' = Some ''1''"
proof -
  have a: "provValidate (const_provider [(''K'', ''1'')]) ''one'' = None"
          "provLoad (const_provider [(''K'', ''1'')]) ''one'' = Inr [(''K'', ''1'')]"
    and b: "provValidate (const_provider [(''K'', ''2'')]) ''two'' = None"
           "provLoad (const_provider [(''K'', ''2'')]) ''two'' = Inr [(''K'', ''2'')]"
    by (simp_all add: const_provider_def)
  have v: "\<forall>v. validator example_client = Some v \<longrightarrow>
             v (fmupd ''K'' ''2'' fmempty) = None \<and> v (fmupd ''K'' ''1'' fmempty) = None"
    by (simp add: example_client_simps)
  note T = merge_Override_and_Preserve
    [OF parseSource_literals(1) example_client_simps(1) a
        parseSource_literals(2) example_client_simps(2) b v,
      where schema = "[]" and t = "fmupd ''K'' ''1'' fmempty"
        and src = "[(''J'', ''0''), (''K'', ''2'')]" and k = "''K''"
        and new = "''2''" and old = "''1''"]
  show ?thesis
    using T a b by (simp add: parseSource_literals example_client_simps)
qed

text \<open>
  C5. Under \<open>MergeStrategyError\<close>: the sources before \<open>s\<close> have been loaded into
  \<open>acc\<close>, and the provider of \<open>s\<close> yields a map with a key that \<open>acc\<close> has. Then
  \<open>Load\<close> returns no environment and the error of a duplicate key, which carries a
  key of both maps, its value in \<open>acc\<close> and its value in the source. The sources after
  \<open>s\<close> do not matter: whatever they are, \<open>Load\<close> returns the same.
\<close>

theorem Load_Error_strategy_aborts_on_conflict:
  assumes srcs: "optSources opts = pre @ s # post"
      and strat: "optMergeStrategy opts = MergeStrategyError"
      and before: "loadSources c pre (newEnvironment c) MergeStrategyError = (acc, None)"
      and prov: "parseSource s = (pn, path)" "fmlookup (cl_providers c) pn = Some P"
                "provValidate P path = None" "provLoad P path = Inr config"
      and wf: "distinct (map fst config)"
      and dup: "(k, v) \<in> set config" "fmlookup (Data acc) k \<noteq> None"
  shows "\<exists>k' old new.
           fmlookup (Data acc) k' = Some old \<and> (k', new) \<in> set config \<and>
           Load c opts = (None, Some (FailedToLoadFromSource s (DuplicateKeyFound k' old new))) \<and>
           (\<forall>post'. Load c (opts\<lparr>optSources := pre @ s # post'\<rparr>) = Load c opts)"
proof -
  obtain k' old new where
    conflict: "fmlookup (Data acc) k' = Some old" "(k', new) \<in> set config"
      "snd (mergeConfiguration (Data acc) config MergeStrategyError) =
         Some (DuplicateKeyFound k' old new)"
    using merge_Error_conflict [OF wf dup] by blast
  obtain d where m: "mergeConfiguration (Data acc) config MergeStrategyError =
      (d, Some (DuplicateKeyFound k' old new))"
    using conflict(3) by (cases "mergeConfiguration (Data acc) config MergeStrategyError") auto
  have step: "loadFromSource c s acc MergeStrategyError =
      (acc\<lparr>Data := d\<rparr>, Some (DuplicateKeyFound k' old new))"
    by (simp add: loadFromSource_loaded [OF prov] m)
  have run: "loadSources c (pre @ s # rest) (newEnvironment c) MergeStrategyError =
      (acc\<lparr>Data := d\<rparr>, Some (FailedToLoadFromSource s (DuplicateKeyFound k' old new)))" for rest
    by (simp add: loadSources_append before step)
  have res: "Load c (opts\<lparr>optSources := pre @ s # rest\<rparr>) =
      (None, Some (FailedToLoadFromSource s (DuplicateKeyFound k' old new)))" for rest
    by (rule Load_sources_failed [where env' = "acc\<lparr>Data := d\<rparr>"]) (simp_all add: strat run)
  have "opts\<lparr>optSources := pre @ s # post\<rparr> = opts"
    using srcs by simp
  then have "Load c opts =
      (None, Some (FailedToLoadFromSource s (DuplicateKeyFound k' old new)))"
    using res [of post] by simp
  then show ?thesis
    using conflict(1,2) res by auto
qed

theorem Load_Error_strategy_aborts_on_conflict_witness:
  "loadSources example_client [''a:one''] (newEnvironment example_client) MergeStrategyError
     = (\<lparr>Data = fmupd ''K'' ''1'' fmempty,
         Sources = [\<lparr>srcName = ''a:one'', srcProvider = ''a'', KeyCount = 1\<rparr>],
         client = example_client\<rparr>, None)
   \<and> provLoad (const_provider [(''K'', ''2'')]) ''two'' = Inr [(''K'', ''2'')]
   \<and> Load example_client \<lparr>optSources = [''a:one'', ''b:two'', ''ghost:path''], Schema = [],
                optMergeStrategy = MergeStrategyError\<rparr>
       = (None, Some (FailedToLoadFromSource ''b:two'' (DuplicateKeyFound ''K'' ''1'' ''2'')))
   \<and> Load example_client \<lparr>optSources = [''a:one'', ''b:two''], Schema = [],
                optMergeStrategy = MergeStrategyError\<rparr>
       = (None, Some (FailedToLoadFromSource ''b:two'' (DuplicateKeyFound ''K'' ''1'' ''2'')))"
proof -
  let ?opts = "\<lparr>optSources = [''a:one'', ''b:two'', ''ghost:path''], Schema = [],
                optMergeStrategy = MergeStrategyError\<rparr>"
  let ?acc = "\<lparr>Data = fmupd ''K'' ''1'' fmempty,
           Sources = [\<lparr>srcName = ''a:one'', srcProvider = ''a'', KeyCount = 1\<rparr>],
           client = example_client\<rparr>"
  have h1: "optSources ?opts = [''a:one''] @ ''b:two'' # [''ghost:path'']" by simp
  have h2: "optMergeStrategy ?opts = MergeStrategyError" by simp
  have h3: "loadSources example_client [''a:one''] (newEnvironment example_client)
         MergeStrategyError = (?acc, None)"
    by (rule example_client_first_source)
  have h6: "provValidate (const_provider [(''K'', ''2'')]) ''two'' = None"
    and h7: "provLoad (const_provider [(''K'', ''2'')]) ''two'' = Inr [(''K'', ''2'')]"
    by (simp_all add: const_provider_def)
  have h8: "distinct (map fst [(''K'', ''2'')])" by simp
  have h9: "(''K'', ''2'') \<in> set [(''K'', ''2'')]" by simp
  have h10: "fmlookup (Data ?acc) ''K'' \<noteq> None" by simp
  from Load_Error_strategy_aborts_on_conflict
    [OF h1 h2 h3 parseSource_literals(2) example_client_simps(2) h6 h7 h8 h9 h10]
  obtain k' old new where
    r: "fmlookup (Data ?acc) k' = Some old" "(k', new) \<in> set [(''K'', ''2'')]"
       "Load example_client ?opts =
          (None, Some (FailedToLoadFromSource ''b:two'' (DuplicateKeyFound k' old new)))"
       "\<forall>post'. Load example_client (?opts\<lparr>optSources := [''a:one''] @ ''b:two'' # post'\<rparr>) =
          Load example_client ?opts"
    by blast
  have k: "k' = ''K''" "new = ''2''" using r(2) by simp_all
  have o: "old = ''1''" using r(1) k by simp
  from r(4) have "Load example_client (?opts\<lparr>optSources := [''a:one''] @ ''b:two'' # []\<rparr>) =
      Load example_client ?opts"
    by blast
  then show ?thesis using h3 h7 r(3) k o by simp
qed

subsection \<open>What Load returns\<close>

text \<open>
  C3. The claim: the data of every environment that \<open>Load\<close> returns has keys of at
  most \<open>MaxKeyLength\<close> bytes, values of at most \<open>MaxValueLength\<close> bytes and at most
  \<open>MaxEnvironmentKeys\<close> keys. The three constants stand side by side in
  \<^verbatim>\<open>client.go\<close>, each with the comment that it is the maximum; \<open>Load\<close> compares
  the number of keys with \<open>MaxEnvironmentKeys\<close> and never reads the other two. Here a
  source yields one entry with a key of 257 bytes and a value of 4097 bytes, no
  validator is set, and \<open>Load\<close> returns the environment that holds the entry.
\<close>

theorem Load_accepts_long_key_and_value:
  "Load (default_client [(long_key, long_value)])
        \<lparr>optSources = [''.env''], Schema = [], optMergeStrategy = MergeStrategyOverride\<rparr>
     = (Some \<lparr>Data = fmupd long_key long_value fmempty,
              Sources = [\<lparr>srcName = ''.env'', srcProvider = ''default'', KeyCount = 1\<rparr>],
              client = default_client [(long_key, long_value)]\<rparr>, None)
   \<and> MaxKeyLength < length long_key \<and> MaxValueLength < length long_value"
  by (simp add: Load_def loadSources_default_client default_client_simps
        MaxEnvironmentKeys_def len_fmupd MaxKeyLength_def MaxValueLength_def long_key_def long_value_def
        del: loadSources.simps)

text \<open>
  The third bound is enforced: the data of every environment that \<open>Load\<close> returns
  has at most \<open>MaxEnvironmentKeys\<close> keys, and a \<open>Load\<close> whose merged mapping has more
  keys than that returns an error and no environment.
\<close>

lemma Load_enforces_key_count_ceiling:
  "(fst (Load c opts) = Some env \<longrightarrow> len (Data env) \<le> MaxEnvironmentKeys)
   \<and> (optSources opts \<noteq> [] \<and>
      loadSources c (optSources opts) (newEnvironment c) (optMergeStrategy opts) = (merged, None) \<and>
      MaxEnvironmentKeys < len (Data merged)
      \<longrightarrow> fst (Load c opts) = None \<and> snd (Load c opts) \<noteq> None)"
  by (auto simp: Load_def Let_def split: prod.splits option.splits if_splits)

lemma Load_enforces_key_count_ceiling_example:
  "fst (Load (default_client (many_entries 10000))
          \<lparr>optSources = [''.env''], Schema = [], optMergeStrategy = MergeStrategyOverride\<rparr>)
     = Some \<lparr>Data = fst (mergeConfiguration fmempty (many_entries 10000) MergeStrategyOverride),
             Sources = [\<lparr>srcName = ''.env'', srcProvider = ''default'', KeyCount = 10000\<rparr>],
             client = default_client (many_entries 10000)\<rparr>
   \<and> len (fst (mergeConfiguration fmempty (many_entries 10000) MergeStrategyOverride)) \<le> MaxEnvironmentKeys
   \<and> MaxEnvironmentKeys < len (fst (mergeConfiguration fmempty (many_entries 10001) MergeStrategyOverride))
   \<and> Load (default_client (many_entries 10001))
          \<lparr>optSources = [''.env''], Schema = [], optMergeStrategy = MergeStrategyOverride\<rparr>
     = (None, Some (TooManyEnvironmentKeys 10001 MaxEnvironmentKeys))"
proof -
  let ?o = "\<lparr>optSources = [''.env''], Schema = [], optMergeStrategy = MergeStrategyOverride\<rparr>"
  let ?c = "default_client (many_entries 10000)"
  let ?c' = "default_client (many_entries 10001)"
  let ?d = "fst (mergeConfiguration fmempty (many_entries 10000) MergeStrategyOverride)"
  let ?d' = "fst (mergeConfiguration fmempty (many_entries 10001) MergeStrategyOverride)"
  let ?e = "\<lparr>Data = ?d,
             Sources = [\<lparr>srcName = ''.env'', srcProvider = ''default'', KeyCount = 10000\<rparr>],
             client = ?c\<rparr>"
  let ?e' = "\<lparr>Data = ?d',
             Sources = [\<lparr>srcName = ''.env'', srcProvider = ''default'', KeyCount = 10001\<rparr>],
             client = ?c'\<rparr>"
  have ld: "len ?d = 10000" and ld': "len ?d' = 10001"
    by (simp_all add: merge_into_empty(2) many_entries_distinct length_many_entries)
  have ok: "fst (Load ?c ?o) = Some ?e"
    by (simp add: Load_def loadSources_default_client many_entries_distinct length_many_entries
          default_client_simps ld MaxEnvironmentKeys_def del: loadSources.simps)
  have run: "optSources ?o \<noteq> [] \<and>
      loadSources ?c' (optSources ?o) (newEnvironment ?c') (optMergeStrategy ?o) = (?e', None) \<and>
      MaxEnvironmentKeys < len (Data ?e')"
    by (simp add: loadSources_default_client many_entries_distinct length_many_entries ld'
          MaxEnvironmentKeys_def del: loadSources.simps)
  have full: "Load ?c' ?o = (None, Some (TooManyEnvironmentKeys 10001 MaxEnvironmentKeys))"
    by (simp add: Load_def loadSources_default_client many_entries_distinct length_many_entries
          default_client_simps ld' MaxEnvironmentKeys_def del: loadSources.simps)
  have 1: "len (Data ?e) \<le> MaxEnvironmentKeys"
    using Load_enforces_key_count_ceiling [where c = ?c and opts = ?o and env = ?e] ok by blast
  have 2: "fst (Load ?c' ?o) = None \<and> snd (Load ?c' ?o) \<noteq> None"
    using Load_enforces_key_count_ceiling [where c = ?c' and opts = ?o and merged = ?e'] run
    by blast
  show ?thesis
    using ok 1 2 run full by simp
qed

text \<open>
  C6. \<open>Load\<close> returns no environment exactly when it returns an error. It returns an
  error, and so no environment, when a source fails after the sources before it have
  been merged into \<open>acc\<close> (its provider is unknown, or the provider's \<open>Validate\<close> or
  \<open>Load\<close> fails, or the merge finds a conflict), when the validator refuses the merged
  data, and when the merged data has more than \<open>MaxEnvironmentKeys\<close> keys.
\<close>

theorem Load_failure_returns_no_environment:
  "(fst (Load c opts) = None \<longleftrightarrow> snd (Load c opts) \<noteq> None)
   \<and> (optSources opts = pre @ s # post \<and>
      loadSources c pre (newEnvironment c) (optMergeStrategy opts) = (acc, None) \<and>
      parseSource s = (pn, path) \<and>
      (fmlookup (cl_providers c) pn = None
       \<or> (\<exists>P. fmlookup (cl_providers c) pn = Some P \<and>
             (provValidate P path \<noteq> None
              \<or> (\<exists>e. provLoad P path = Inl e)
              \<or> (\<exists>config. provLoad P path = Inr config \<and>
                    snd (mergeConfiguration (Data acc) config (optMergeStrategy opts)) \<noteq> None))))
      \<longrightarrow> fst (Load c opts) = None \<and>
          (\<exists>e. snd (Load c opts) = Some (FailedToLoadFromSource s e)))
   \<and> (optSources opts \<noteq> [] \<and>
      loadSources c (optSources opts) (newEnvironment c) (optMergeStrategy opts) = (merged, None) \<and>
      validator c = Some v \<and> v (Data merged) = Some ve
      \<longrightarrow> Load c opts = (None, Some (ValidationFailed ve)))
   \<and> (optSources opts \<noteq> [] \<and>
      loadSources c (optSources opts) (newEnvironment c) (optMergeStrategy opts) = (merged, None) \<and>
      (\<forall>v. validator c = Some v \<longrightarrow> v (Data merged) = None) \<and>
      MaxEnvironmentKeys < len (Data merged)
      \<longrightarrow> Load c opts =
            (None, Some (TooManyEnvironmentKeys (len (Data merged)) MaxEnvironmentKeys)))"
proof (intro conjI impI)
  show "fst (Load c opts) = None \<longleftrightarrow> snd (Load c opts) \<noteq> None"
    by (rule Load_nil_iff_error)
next
  assume a: "optSources opts = pre @ s # post \<and>
      loadSources c pre (newEnvironment c) (optMergeStrategy opts) = (acc, None) \<and>
      parseSource s = (pn, path) \<and>
      (fmlookup (cl_providers c) pn = None
       \<or> (\<exists>P. fmlookup (cl_providers c) pn = Some P \<and>
             (provValidate P path \<noteq> None
              \<or> (\<exists>e. provLoad P path = Inl e)
              \<or> (\<exists>config. provLoad P path = Inr config \<and>
                    snd (mergeConfiguration (Data acc) config (optMergeStrategy opts)) \<noteq> None))))"
  then have "snd (loadFromSource c s acc (optMergeStrategy opts)) \<noteq> None"
    using loadFromSource_error_iff [of s pn path c acc "optMergeStrategy opts"] by blast
  then obtain acc' e where step: "loadFromSource c s acc (optMergeStrategy opts) = (acc', Some e)"
    by (cases "loadFromSource c s acc (optMergeStrategy opts)") auto
  have run: "loadSources c (optSources opts) (newEnvironment c) (optMergeStrategy opts) =
      (acc', Some (FailedToLoadFromSource s e))"
    using a by (simp add: loadSources_append step)
  have ne: "optSources opts \<noteq> []" using a by simp
  have r: "Load c opts = (None, Some (FailedToLoadFromSource s e))"
    by (rule Load_sources_failed [OF ne run])
  show "fst (Load c opts) = None" using r by simp
  show "\<exists>e. snd (Load c opts) = Some (FailedToLoadFromSource s e)" using r by simp
next
  assume "optSources opts \<noteq> [] \<and>
      loadSources c (optSources opts) (newEnvironment c) (optMergeStrategy opts) = (merged, None) \<and>
      validator c = Some v \<and> v (Data merged) = Some ve"
  then show "Load c opts = (None, Some (ValidationFailed ve))"
    by (simp add: Load_def)
next
  assume a: "optSources opts \<noteq> [] \<and>
      loadSources c (optSources opts) (newEnvironment c) (optMergeStrategy opts) = (merged, None) \<and>
      (\<forall>v. validator c = Some v \<longrightarrow> v (Data merged) = None) \<and>
      MaxEnvironmentKeys < len (Data merged)"
  then have "(case validator c of None \<Rightarrow> None | Some v \<Rightarrow> v (Data merged)) = None"
    by (cases "validator c") auto
  then show "Load c opts =
      (None, Some (TooManyEnvironmentKeys (len (Data merged)) MaxEnvironmentKeys))"
    using a by (simp add: Load_def)
qed

theorem Load_failure_returns_no_environment_witness:
  "(let opts = \<lparr>optSources = [''a:one'', ''ghost:path''], Schema = [],
                 optMergeStrategy = MergeStrategyOverride\<rparr>
    in fmlookup (cl_providers example_client) ''ghost'' = None \<and>
       fst (Load example_client opts) = None \<and> snd (Load example_client opts) \<noteq> None)
   \<and> (let opts = \<lparr>optSources = [''a:one'', ''rejecting:x''], Schema = [],
                 optMergeStrategy = MergeStrategyOverride\<rparr>
    in provValidate rejecting_provider ''x'' \<noteq> None \<and>
       fst (Load example_client opts) = None \<and> snd (Load example_client opts) \<noteq> None)
   \<and> (let opts = \<lparr>optSources = [''a:one'', ''broken:x''], Schema = [],
                 optMergeStrategy = MergeStrategyOverride\<rparr>
    in provLoad broken_provider ''x'' = Inl (ExternalError ''read failed'') \<and>
       fst (Load example_client opts) = None \<and> snd (Load example_client opts) \<noteq> None)
   \<and> (let opts = \<lparr>optSources = [''a:one'', ''b:two''], Schema = [],
                 optMergeStrategy = MergeStrategyError\<rparr>
    in snd (mergeConfiguration (fmupd ''K'' ''1'' fmempty) [(''K'', ''2'')] MergeStrategyError) \<noteq> None \<and>
       fst (Load example_client opts) = None \<and> snd (Load example_client opts) \<noteq> None)
   \<and> (let c = SetValidator (default_client [(''K'', ''1'')]) (Some refusing_validator);
          opts = \<lparr>optSources = [''.env''], Schema = [], optMergeStrategy = MergeStrategyOverride\<rparr>
      in refusing_validator (fmupd ''K'' ''1'' fmempty) = Some (ExternalError ''schema mismatch'') \<and>
         Load c opts = (None, Some (ValidationFailed (ExternalError ''schema mismatch''))))
   \<and> (let c = default_client (many_entries 10001);
          opts = \<lparr>optSources = [''.env''], Schema = [], optMergeStrategy = MergeStrategyOverride\<rparr>
      in MaxEnvironmentKeys < len (fst (mergeConfiguration fmempty (many_entries 10001) MergeStrategyOverride)) \<and>
         Load c opts = (None, Some (TooManyEnvironmentKeys 10001 MaxEnvironmentKeys)))"
proof -
  let ?acc = "\<lparr>Data = fmupd ''K'' ''1'' fmempty,
       Sources = [\<lparr>srcName = ''a:one'', srcProvider = ''a'', KeyCount = 1\<rparr>],
       client = example_client\<rparr>"
  have per_source:
    "fst (Load example_client \<lparr>optSources = [''a:one'', s], Schema = [], optMergeStrategy = strategy\<rparr>) = None
     \<and> snd (Load example_client \<lparr>optSources = [''a:one'', s], Schema = [], optMergeStrategy = strategy\<rparr>) \<noteq> None"
    if "parseSource s = (pn, path)"
      and "fmlookup (cl_providers example_client) pn = None
       \<or> (\<exists>P. fmlookup (cl_providers example_client) pn = Some P \<and>
             (provValidate P path \<noteq> None
              \<or> (\<exists>e. provLoad P path = Inl e)
              \<or> (\<exists>config. provLoad P path = Inr config \<and>
                    snd (mergeConfiguration (Data ?acc) config strategy) \<noteq> None)))"
    for s pn path strategy
  proof -
    let ?opts = "\<lparr>optSources = [''a:one'', s], Schema = [], optMergeStrategy = strategy\<rparr>"
    have hyp: "optSources ?opts = [''a:one''] @ s # [] \<and>
      loadSources example_client [''a:one''] (newEnvironment example_client)
        (optMergeStrategy ?opts) = (?acc, None) \<and>
      parseSource s = (pn, path) \<and>
      (fmlookup (cl_providers example_client) pn = None
       \<or> (\<exists>P. fmlookup (cl_providers example_client) pn = Some P \<and>
             (provValidate P path \<noteq> None
              \<or> (\<exists>e. provLoad P path = Inl e)
              \<or> (\<exists>config. provLoad P path = Inr config \<and>
                    snd (mergeConfiguration (Data ?acc) config (optMergeStrategy ?opts)) \<noteq> None))))"
      using that by (simp add: example_client_first_source del: loadSources.simps)
    have "fst (Load example_client ?opts) = None \<and>
          (\<exists>e. snd (Load example_client ?opts) = Some (FailedToLoadFromSource s e))"
      by (rule Load_failure_returns_no_environment
            [where c = example_client and opts = ?opts,
              THEN conjunct2, THEN conjunct1, THEN mp, OF hyp])
    then show ?thesis by auto
  qed
  have a: "fst (Load example_client \<lparr>optSources = [''a:one'', ''ghost:path''], Schema = [],
                 optMergeStrategy = MergeStrategyOverride\<rparr>) = None
     \<and> snd (Load example_client \<lparr>optSources = [''a:one'', ''ghost:path''], Schema = [],
                 optMergeStrategy = MergeStrategyOverride\<rparr>) \<noteq> None"
    by (rule per_source [OF parseSource_literals(5)]) (simp add: example_client_simps)
  have b: "fst (Load example_client \<lparr>optSources = [''a:one'', ''rejecting:x''], Schema = [],
                 optMergeStrategy = MergeStrategyOverride\<rparr>) = None
     \<and> snd (Load example_client \<lparr>optSources = [''a:one'', ''rejecting:x''], Schema = [],
                 optMergeStrategy = MergeStrategyOverride\<rparr>) \<noteq> None"
    by (rule per_source [OF parseSource_literals(3)])
       (simp add: example_client_simps rejecting_provider_def)
  have c: "fst (Load example_client \<lparr>optSources = [''a:one'', ''broken:x''], Schema = [],
                 optMergeStrategy = MergeStrategyOverride\<rparr>) = None
     \<and> snd (Load example_client \<lparr>optSources = [''a:one'', ''broken:x''], Schema = [],
                 optMergeStrategy = MergeStrategyOverride\<rparr>) \<noteq> None"
    by (rule per_source [OF parseSource_literals(4)])
       (simp add: example_client_simps broken_provider_def)
  have d: "fst (Load example_client \<lparr>optSources = [''a:one'', ''b:two''], Schema = [],
                 optMergeStrategy = MergeStrategyError\<rparr>) = None
     \<and> snd (Load example_client \<lparr>optSources = [''a:one'', ''b:two''], Schema = [],
                 optMergeStrategy = MergeStrategyError\<rparr>) \<noteq> None"
    by (rule per_source [OF parseSource_literals(2)])
       (simp add: example_client_simps const_provider_def)
  let ?o = "\<lparr>optSources = [''.env''], Schema = [], optMergeStrategy = MergeStrategyOverride\<rparr>"
  let ?cv = "SetValidator (default_client [(''K'', ''1'')]) (Some refusing_validator)"
  have cv: "cl_providers ?cv = fmupd ''default'' (const_provider [(''K'', ''1'')]) fmempty"
    "validator ?cv = Some refusing_validator"
    by (simp_all add: SetValidator_def default_client_simps)
  have runv: "loadSources ?cv (optSources ?o) (newEnvironment ?cv) (optMergeStrategy ?o) =
      (\<lparr>Data = fmupd ''K'' ''1'' fmempty,
        Sources = [\<lparr>srcName = ''.env'', srcProvider = ''default'', KeyCount = 1\<rparr>],
        client = ?cv\<rparr>, None)"
    by (simp add: loadFromSource_def parseSource_literals cv const_provider_def
          newEnvironment_def len_fmupd)
  have hv: "optSources ?o \<noteq> [] \<and>
      loadSources ?cv (optSources ?o) (newEnvironment ?cv) (optMergeStrategy ?o) =
        (\<lparr>Data = fmupd ''K'' ''1'' fmempty,
          Sources = [\<lparr>srcName = ''.env'', srcProvider = ''default'', KeyCount = 1\<rparr>],
          client = ?cv\<rparr>, None) \<and>
      validator ?cv = Some refusing_validator \<and>
      refusing_validator (Data \<lparr>Data = fmupd ''K'' ''1'' fmempty,
          Sources = [\<lparr>srcName = ''.env'', srcProvider = ''default'', KeyCount = 1\<rparr>],
          client = ?cv\<rparr>) = Some (ExternalError ''schema mismatch'')"
    using runv cv(2) by (simp add: refusing_validator_def del: loadSources.simps)
  have e: "Load ?cv ?o = (None, Some (ValidationFailed (ExternalError ''schema mismatch'')))"
    by (rule Load_failure_returns_no_environment
          [where c = ?cv and opts = ?o,
            THEN conjunct2, THEN conjunct2, THEN conjunct1, THEN mp, OF hv])
  let ?cm = "default_client (many_entries 10001)"
  let ?dm = "fst (mergeConfiguration fmempty (many_entries 10001) MergeStrategyOverride)"
  have lm: "len ?dm = 10001"
    by (simp add: merge_into_empty(2) many_entries_distinct length_many_entries)
  have runm: "loadSources ?cm (optSources ?o) (newEnvironment ?cm) (optMergeStrategy ?o) =
      (\<lparr>Data = ?dm,
        Sources = [\<lparr>srcName = ''.env'', srcProvider = ''default'', KeyCount = 10001\<rparr>],
        client = ?cm\<rparr>, None)"
    by (simp add: loadSources_default_client many_entries_distinct length_many_entries
          del: loadSources.simps)
  have hm: "optSources ?o \<noteq> [] \<and>
      loadSources ?cm (optSources ?o) (newEnvironment ?cm) (optMergeStrategy ?o) =
        (\<lparr>Data = ?dm,
          Sources = [\<lparr>srcName = ''.env'', srcProvider = ''default'', KeyCount = 10001\<rparr>],
          client = ?cm\<rparr>, None) \<and>
      (\<forall>v. validator ?cm = Some v \<longrightarrow>
           v (Data \<lparr>Data = ?dm,
          Sources = [\<lparr>srcName = ''.env'', srcProvider = ''default'', KeyCount = 10001\<rparr>],
          client = ?cm\<rparr>) = None) \<and>
      MaxEnvironmentKeys < len (Data \<lparr>Data = ?dm,
          Sources = [\<lparr>srcName = ''.env'', srcProvider = ''default'', KeyCount = 10001\<rparr>],
          client = ?cm\<rparr>)"
    using runm lm by (simp add: default_client_simps MaxEnvironmentKeys_def del: loadSources.simps)
  have "Load ?cm ?o = (None, Some (TooManyEnvironmentKeys (len (Data \<lparr>Data = ?dm,
          Sources = [\<lparr>srcName = ''.env'', srcProvider = ''default'', KeyCount = 10001\<rparr>],
          client = ?cm\<rparr>)) MaxEnvironmentKeys))"
    by (rule Load_failure_returns_no_environment
          [where c = ?cm and opts = ?o,
            THEN conjunct2, THEN conjunct2, THEN conjunct2, THEN mp, OF hm])
  then have f: "Load ?cm ?o = (None, Some (TooManyEnvironmentKeys 10001 MaxEnvironmentKeys))"
    using lm by simp
  show ?thesis
    using a b c d e f lm
    by (simp add: Let_def example_client_simps rejecting_provider_def broken_provider_def
          refusing_validator_def MergeStrategyError_def MaxEnvironmentKeys_def)
qed

text \<open>
  C7. The \<open>KeyCount\<close> that \<open>loadFromSource\<close> records for a source is the number of
  keys of the data after the merge minus the number before it. So a source whose keys
  are all in the data already is recorded, under \<open>MergeStrategyOverride\<close>, with the
  count 0, whatever the number of its keys, and its values are in the data afterwards.
\<close>

theorem KeyCount_is_net_growth:
  "(loadFromSource c s acc strategy = (acc', None) \<longrightarrow>
      Sources acc' = Sources acc @
        [\<lparr>srcName = s, srcProvider = fst (parseSource s),
          KeyCount = int (len (Data acc')) - int (len (Data acc))\<rparr>])
   \<and> (parseSource s = (pn, path) \<and> fmlookup (cl_providers c) pn = Some P \<and>
      provValidate P path = None \<and> provLoad P path = Inr config \<and>
      distinct (map fst config) \<and> (\<forall>e \<in> set config. fmlookup (Data acc) (fst e) \<noteq> None)
      \<longrightarrow> (\<exists>acc''. loadFromSource c s acc MergeStrategyOverride = (acc'', None) \<and>
             Sources acc'' = Sources acc @ [\<lparr>srcName = s, srcProvider = pn, KeyCount = 0\<rparr>] \<and>
             (\<forall>e \<in> set config. fmlookup (Data acc'') (fst e) = Some (snd e))))"
proof (intro conjI impI)
  assume "loadFromSource c s acc strategy = (acc', None)"
  then show "Sources acc' = Sources acc @
        [\<lparr>srcName = s, srcProvider = fst (parseSource s),
          KeyCount = int (len (Data acc')) - int (len (Data acc))\<rparr>]"
    by (auto simp: loadFromSource_def Let_def
          split: prod.splits option.splits sum.splits)
next
  assume a: "parseSource s = (pn, path) \<and> fmlookup (cl_providers c) pn = Some P \<and>
      provValidate P path = None \<and> provLoad P path = Inr config \<and>
      distinct (map fst config) \<and> (\<forall>e \<in> set config. fmlookup (Data acc) (fst e) \<noteq> None)"
  then have wf: "distinct (map fst config)"
    and ex: "\<forall>e \<in> set config. fmlookup (Data acc) (fst e) \<noteq> None"
    by simp_all
  obtain d where m: "mergeConfiguration (Data acc) config MergeStrategyOverride = (d, None)"
    using merge_Override_existing_keys(1) [OF wf ex]
    by (cases "mergeConfiguration (Data acc) config MergeStrategyOverride") auto
  have l: "len d = len (Data acc)"
    using merge_Override_existing_keys(2) [OF wf ex] m by simp
  have v: "\<forall>e \<in> set config. fmlookup d (fst e) = Some (snd e)"
    using merge_Override_existing_keys(3) [OF wf ex] m by auto
  have "loadFromSource c s acc MergeStrategyOverride =
      (acc\<lparr>Data := d, Sources := Sources acc @
             [\<lparr>srcName = s, srcProvider = pn, KeyCount = 0\<rparr>]\<rparr>, None)"
    using a by (simp add: loadFromSource_def m l)
  then show "\<exists>acc''. loadFromSource c s acc MergeStrategyOverride = (acc'', None) \<and>
             Sources acc'' = Sources acc @ [\<lparr>srcName = s, srcProvider = pn, KeyCount = 0\<rparr>] \<and>
             (\<forall>e \<in> set config. fmlookup (Data acc'') (fst e) = Some (snd e))"
    using v by simp
qed

theorem KeyCount_is_net_growth_witness:
  "loadFromSource example_client ''b:two''
      \<lparr>Data = fmupd ''K'' ''1'' fmempty,
       Sources = [\<lparr>srcName = ''a:one'', srcProvider = ''a'', KeyCount = 1\<rparr>],
       client = example_client\<rparr> MergeStrategyOverride
    = (\<lparr>Data = fmupd ''K'' ''2'' fmempty,
        Sources = [\<lparr>srcName = ''a:one'', srcProvider = ''a'', KeyCount = 1\<rparr>,
                   \<lparr>srcName = ''b:two'', srcProvider = ''b'', KeyCount = 0\<rparr>],
        client = example_client\<rparr>, None)
   \<and> int (len (fmupd ''K'' ''2'' fmempty)) - int (len (fmupd ''K'' ''1'' (fmempty :: (string, string) fmap))) = 0
   \<and> length [(''K'', ''2'')] = 1"
proof -
  let ?acc = "\<lparr>Data = fmupd ''K'' ''1'' fmempty,
       Sources = [\<lparr>srcName = ''a:one'', srcProvider = ''a'', KeyCount = 1\<rparr>],
       client = example_client\<rparr>"
  let ?acc' = "\<lparr>Data = fmupd ''K'' ''2'' fmempty,
        Sources = [\<lparr>srcName = ''a:one'', srcProvider = ''a'', KeyCount = 1\<rparr>,
                   \<lparr>srcName = ''b:two'', srcProvider = ''b'', KeyCount = 0\<rparr>],
        client = example_client\<rparr>"
  have run: "loadFromSource example_client ''b:two'' ?acc MergeStrategyOverride = (?acc', None)"
    by (simp add: loadFromSource_def parseSource_literals example_client_simps
          const_provider_def len_fmupd MergeStrategyOverride_def MergeStrategyError_def
          MergeStrategyPreserve_def)
  have 1: "Sources ?acc' = Sources ?acc @
        [\<lparr>srcName = ''b:two'', srcProvider = fst (parseSource ''b:two''),
          KeyCount = int (len (Data ?acc')) - int (len (Data ?acc))\<rparr>]"
    by (rule KeyCount_is_net_growth
          [where c = example_client and s = "''b:two''" and acc = ?acc and acc' = ?acc'
             and strategy = MergeStrategyOverride, THEN conjunct1, THEN mp, OF run])
  have hyp: "parseSource ''b:two'' = (''b'', ''two'') \<and>
      fmlookup (cl_providers example_client) ''b'' = Some (const_provider [(''K'', ''2'')]) \<and>
      provValidate (const_provider [(''K'', ''2'')]) ''two'' = None \<and>
      provLoad (const_provider [(''K'', ''2'')]) ''two'' = Inr [(''K'', ''2'')] \<and>
      distinct (map fst [(''K'', ''2'')]) \<and>
      (\<forall>e \<in> set [(''K'', ''2'')]. fmlookup (Data ?acc) (fst e) \<noteq> None)"
    by (simp add: parseSource_literals example_client_simps const_provider_def)
  have 2: "\<exists>acc''. loadFromSource example_client ''b:two'' ?acc MergeStrategyOverride = (acc'', None) \<and>
             Sources acc'' = Sources ?acc @ [\<lparr>srcName = ''b:two'', srcProvider = ''b'', KeyCount = 0\<rparr>] \<and>
             (\<forall>e \<in> set [(''K'', ''2'')]. fmlookup (Data acc'') (fst e) = Some (snd e))"
    by (rule KeyCount_is_net_growth
          [where c = example_client and s = "''b:two''" and acc = ?acc,
            THEN conjunct2, THEN mp, OF hyp])
  show ?thesis
    using run 1 2 by (simp add: len_fmupd)
qed

subsection \<open>Get and Set\<close>

text \<open>
  C10. After \<open>Set e k v\<close>, \<open>Get\<close> of \<open>k\<close> returns \<open>v\<close> and \<open>True\<close>, \<open>Get\<close> of any
  other key returns what it did, and the list of sources is the same. \<open>Set\<close> checks
  nothing: a new key makes the data one key larger, a key longer than \<open>MaxKeyLength\<close>
  or a value longer than \<open>MaxValueLength\<close> is stored as it is, and there is an
  environment returned by \<open>Load\<close> that has more than \<open>MaxEnvironmentKeys\<close> keys after
  one \<open>Set\<close>.
\<close>

theorem Set_writes_one_key_unchecked:
  "Get (Set e k v) k = (v, True)
   \<and> (k' \<noteq> k \<longrightarrow> Get (Set e k v) k' = Get e k')
   \<and> Sources (Set e k v) = Sources e
   \<and> (fmlookup (Data e) k = None \<longrightarrow> len (Data (Set e k v)) = Suc (len (Data e)))
   \<and> (MaxKeyLength < length k \<or> MaxValueLength < length v \<longrightarrow>
        \<not> fmpred (\<lambda>k v. length k \<le> MaxKeyLength \<and> length v \<le> MaxValueLength)
            (Data (Set e k v)))
   \<and> (\<exists>c opts e0 k0 v0. Load c opts = (Some e0, None) \<and>
        MaxEnvironmentKeys < len (Data (Set e0 k0 v0)))"
proof -
  have "len (Data (Set full_environment long_key [])) = Suc (len (Data full_environment))"
    using long_key_fresh by (simp add: Set_def len_fmupd)
  then have "MaxEnvironmentKeys < len (Data (Set full_environment long_key []))"
    by (simp add: len_full_environment MaxEnvironmentKeys_def)
  then have "\<exists>c opts e0 k0 v0. Load c opts = (Some e0, None) \<and>
        MaxEnvironmentKeys < len (Data (Set e0 k0 v0))"
    using Load_full_environment by blast
  then show ?thesis
    by (auto simp: Get_def Set_def len_fmupd)
qed

theorem Set_writes_one_key_unchecked_witness:
  "Get (Set full_environment long_key long_value) long_key = (long_value, True)
   \<and> ''k'' \<noteq> long_key
   \<and> Get (Set full_environment long_key long_value) ''k'' = Get full_environment ''k''
   \<and> Sources (Set full_environment long_key long_value) = Sources full_environment
   \<and> fmlookup (Data full_environment) long_key = None
   \<and> len (Data full_environment) = MaxEnvironmentKeys
   \<and> len (Data (Set full_environment long_key long_value)) = Suc MaxEnvironmentKeys
   \<and> MaxKeyLength < length long_key
   \<and> MaxValueLength < length long_value
   \<and> \<not> fmpred (\<lambda>k v. length k \<le> MaxKeyLength \<and> length v \<le> MaxValueLength)
         (Data (Set full_environment long_key long_value))"
proof -
  have h1: "''k'' \<noteq> long_key"
    by (auto simp: long_key_def dest: arg_cong [where f = length])
  have h2: "MaxKeyLength < length long_key" "MaxValueLength < length long_value"
    by (simp_all add: long_key_def long_value_def MaxKeyLength_def MaxValueLength_def)
  note T = Set_writes_one_key_unchecked
    [where e = full_environment and k = long_key and v = long_value and k' = "''k''"]
  show ?thesis
    using T h1 h2 long_key_fresh len_full_environment
    by (simp add: MaxEnvironmentKeys_def)
qed

end
